theory Spec2Isabelle
  imports Main "HOL-Library.Word" "HOL-Library.Log_Nat"
begin

type_synonym uint8 = "8 word"

datatype Color = Gray uint8

section \<open>Go values used by the tiler\<close>

subsection \<open>float32\<close>

text \<open>
  A Go \<open>float32\<close> is an IEEE 754 binary32 value. A finite value is kept as the rational
  it denotes, next to the two infinities and NaN. Every arithmetic operation computes the
  exact rational result and rounds it to the nearest binary32 value, ties to even, with
  gradual underflow and overflow to an infinity. The sign of a zero is not kept: it can
  only be observed by dividing by that zero.
\<close>

datatype f32 = Fin rat | PInf | NInf | NaN

definition ilog2 :: "rat \<Rightarrow> int" where
  \<comment> \<open>for \<open>0 < x\<close>: the exponent \<open>e\<close> with \<open>2 powi e \<le> x < 2 powi (e + 1)\<close>\<close>
  "ilog2 x = (case quotient_of x of (p, q) \<Rightarrow>
     (let e0 = bitlen p - bitlen q in if 2 powi e0 \<le> x then e0 else e0 - 1))"

definition round_even :: "rat \<Rightarrow> int" where
  "round_even x = (let f = \<lfloor>x\<rfloor>; d = x - of_int f in
     if d < 1 / 2 then f else if 1 / 2 < d then f + 1 else if even f then f else f + 1)"

definition rnd32 :: "rat \<Rightarrow> f32" where
  \<comment> \<open>24 significant bits, least exponent -126, overflow from \<open>2 ^ 128\<close>\<close>
  "rnd32 x = (if x = 0 then Fin 0 else
     (let e = max (ilog2 \<bar>x\<bar>) (- 126);
          q = 2 powi (e - 23);
          r = of_int (round_even (x / q)) * q
      in if 2 ^ 128 \<le> \<bar>r\<bar> then (if 0 < x then PInf else NInf) else Fin r))"

fun f32_neg :: "f32 \<Rightarrow> f32" where
  "f32_neg (Fin a) = Fin (- a)"
| "f32_neg PInf = NInf"
| "f32_neg NInf = PInf"
| "f32_neg NaN = NaN"

fun f32_add :: "f32 \<Rightarrow> f32 \<Rightarrow> f32" where
  "f32_add (Fin a) (Fin b) = rnd32 (a + b)"
| "f32_add NaN _ = NaN"
| "f32_add _ NaN = NaN"
| "f32_add PInf NInf = NaN"
| "f32_add NInf PInf = NaN"
| "f32_add PInf _ = PInf"
| "f32_add NInf _ = NInf"
| "f32_add _ PInf = PInf"
| "f32_add _ NInf = NInf"

definition f32_sub :: "f32 \<Rightarrow> f32 \<Rightarrow> f32" where
  "f32_sub a b = f32_add a (f32_neg b)"

fun f32_sgn :: "f32 \<Rightarrow> int" where
  "f32_sgn (Fin a) = (if a < 0 then - 1 else if a = 0 then 0 else 1)"
| "f32_sgn PInf = 1"
| "f32_sgn NInf = - 1"
| "f32_sgn NaN = 0"

definition inf_of_sign :: "int \<Rightarrow> f32" where
  "inf_of_sign s = (if s < 0 then NInf else PInf)"

fun f32_mul :: "f32 \<Rightarrow> f32 \<Rightarrow> f32" where
  "f32_mul (Fin a) (Fin b) = rnd32 (a * b)"
| "f32_mul NaN _ = NaN"
| "f32_mul _ NaN = NaN"
| "f32_mul a b = (if f32_sgn a * f32_sgn b = 0 then NaN else inf_of_sign (f32_sgn a * f32_sgn b))"

fun f32_div :: "f32 \<Rightarrow> f32 \<Rightarrow> f32" where
  "f32_div (Fin a) (Fin b) =
     (if b = 0 then (if a = 0 then NaN else inf_of_sign (f32_sgn (Fin a)))
      else rnd32 (a / b))"
| "f32_div NaN _ = NaN"
| "f32_div _ NaN = NaN"
| "f32_div (Fin a) _ = Fin 0"
| "f32_div a (Fin b) = inf_of_sign (f32_sgn a * (if b < 0 then - 1 else 1))"
| "f32_div _ _ = NaN"

fun f32_lt :: "f32 \<Rightarrow> f32 \<Rightarrow> bool" where
  "f32_lt (Fin a) (Fin b) = (a < b)"
| "f32_lt NaN _ = False"
| "f32_lt _ NaN = False"
| "f32_lt NInf b = (b \<noteq> NInf)"
| "f32_lt a PInf = (a \<noteq> PInf)"
| "f32_lt _ _ = False"

definition f32_gt :: "f32 \<Rightarrow> f32 \<Rightarrow> bool" where
  "f32_gt a b = f32_lt b a"

definition f32_ge :: "f32 \<Rightarrow> f32 \<Rightarrow> bool" where
  \<comment> \<open>\<open>a >= b\<close>: false as soon as one side is NaN\<close>
  "f32_ge a b = (a \<noteq> NaN \<and> b \<noteq> NaN \<and> \<not> f32_lt a b)"

subsection \<open>Errors, panics and the log\<close>

datatype panic = IndexOutOfRange | MakesliceLenOutOfRange

datatype error = EOF | OpenError | CreateError | ScanError | Panic panic

datatype verbose_msg =
    V_file string
  | V_line string
  | V_int string int
  | V_float string f32
  | V_row string
  | V_height int int f32
  | V_minmax f32 f32
  | V_shade uint8
  | V_colouring int int Color

datatype event =
    OpenFailed string
  | HeaderExpected string string
  | NoDataValueIs int
  | ReadingDataLines int
  | TooManyLines string int
  | TooManyColumns int nat int
  | TooFewColumns int nat int
  | ScanFailed int int
  | TooFewLines string int int
  | SetHeightOutOfRange int int
  | ErrorLogged error
  | CreatingImage f32 f32
  | EncodingImage
  | Summary int int f32 f32 uint8 uint8
  | Verbose verbose_msg

text \<open>
  A call returns a value or fails with an error or a panic, and it has appended some
  lines to the log. The log lines written before a failure stay written.
\<close>

type_synonym 'a out = "(error + 'a) \<times> event list"

definition ret :: "'a \<Rightarrow> 'a out" where
  "ret x = (Inr x, [])"

definition say :: "event \<Rightarrow> unit out" where
  "say e = (Inr (), [e])"

definition say_if :: "bool \<Rightarrow> event \<Rightarrow> unit out" where
  "say_if b e = (Inr (), if b then [e] else [])"

definition fail :: "error \<Rightarrow> 'a out" where
  "fail e = (Inl e, [])"

definition bind_out :: "'a out \<Rightarrow> ('a \<Rightarrow> 'b out) \<Rightarrow> 'b out" where
  "bind_out m f = (case m of
       (Inl e, l) \<Rightarrow> (Inl e, l)
     | (Inr x, l) \<Rightarrow> (case f x of (r, l') \<Rightarrow> (r, l @ l')))"

section \<open>Package esri: the grid\<close>

record Grid =
  ncols :: int
  nrows :: int
  xllcorner :: f32
  yllcorner :: f32
  cellsize :: f32
  noDataValue :: int
  maxHeightSet :: bool
  maxHeight :: f32
  minHeightSet :: bool
  minHeight :: f32
  height :: "f32 list list"
  verbose_g :: bool

definition Ncols :: "Grid \<Rightarrow> int" where "Ncols g = ncols g"
definition Nrows :: "Grid \<Rightarrow> int" where "Nrows g = nrows g"
definition MaxHeight :: "Grid \<Rightarrow> f32" where "MaxHeight g = maxHeight g"
definition MinHeight :: "Grid \<Rightarrow> f32" where "MinHeight g = minHeight g"

text \<open>Indexing a slice of slices panics when an index is negative or too large.\<close>

definition index2 :: "'a list list \<Rightarrow> int \<Rightarrow> int \<Rightarrow> 'a option" where
  "index2 hs i j =
     (if 0 \<le> i \<and> i < int (length hs) then
        (let r = hs ! nat i in if 0 \<le> j \<and> j < int (length r) then Some (r ! nat j) else None)
      else None)"

definition store2 :: "'a list list \<Rightarrow> int \<Rightarrow> int \<Rightarrow> 'a \<Rightarrow> 'a list list option" where
  "store2 hs i j v =
     (if 0 \<le> i \<and> i < int (length hs) then
        (let r = hs ! nat i in
           if 0 \<le> j \<and> j < int (length r) then Some (hs[nat i := r[nat j := v]]) else None)
      else None)"

definition Height :: "Grid \<Rightarrow> int \<Rightarrow> int \<Rightarrow> error + f32" where
  "Height g i col = (case index2 (height g) i col of
       None \<Rightarrow> Inl (Panic IndexOutOfRange)
     | Some h \<Rightarrow> Inr h)"

definition SetHeight :: "Grid \<Rightarrow> int \<Rightarrow> int \<Rightarrow> f32 \<Rightarrow> Grid out" where
  "SetHeight g row col h =
     (if nrows g \<le> row \<or> ncols g \<le> col then (Inr g, [SetHeightOutOfRange row col])
      else (case store2 (height g) row col h of
          None \<Rightarrow> fail (Panic IndexOutOfRange)
        | Some hs \<Rightarrow>
            (let g1 = g\<lparr>height := hs\<rparr>;
                 g2 = (if maxHeightSet g1
                       then (if f32_gt h (maxHeight g1) then g1\<lparr>maxHeight := h\<rparr> else g1)
                       else g1\<lparr>maxHeight := h, maxHeightSet := True\<rparr>);
                 g3 = (if minHeightSet g2
                       then (if f32_lt h (minHeight g2) then g2\<lparr>minHeight := h\<rparr> else g2)
                       else g2\<lparr>minHeight := h, minHeightSet := True\<rparr>)
             in ret g3)))"

text \<open>A sequence of calls of \<open>SetHeight\<close> on one grid, stopping at a panic.\<close>

fun SetHeight_calls :: "Grid \<Rightarrow> (int \<times> int \<times> f32) list \<Rightarrow> Grid out" where
  "SetHeight_calls g [] = ret g"
| "SetHeight_calls g ((row, col, h) # cs) =
     bind_out (SetHeight g row col h) (\<lambda>g'. SetHeight_calls g' cs)"

text \<open>The zero value \<open>Grid{}\<close> with its height matrix allocated.\<close>

definition zero_Grid :: "int \<Rightarrow> int \<Rightarrow> Grid" where
  "zero_Grid nc nr = \<lparr>ncols = nc, nrows = nr, xllcorner = Fin 0, yllcorner = Fin 0,
     cellsize = Fin 0, noDataValue = 0, maxHeightSet = False, maxHeight = Fin 0,
     minHeightSet = False, minHeight = Fin 0,
     height = replicate (nat nr) (replicate (nat nc) (Fin 0)), verbose_g = False\<rparr>"


section \<open>Package esri: reading a grid file\<close>

subsection \<open>Library functions the reader calls\<close>

text \<open>
  \<open>fmt.Sscanf\<close> with the formats \<open>%d\<close> and \<open>%f\<close> belongs to the Go library. The reader
  takes the two scanners as a parameter: \<open>None\<close> is a returned error. Nothing below
  depends on what they accept, except the worked example, which uses \<open>go_fmt\<close>.
\<close>

record fmt =
  Sscanf_d :: "string \<Rightarrow> int option"
  Sscanf_f :: "string \<Rightarrow> f32 option"

definition nl :: char where "nl = CHR 0x0A"
definition sp :: char where "sp = CHR 0x20"

text \<open>
  A Go string is a sequence of bytes that holds UTF-8. \<open>utf8.DecodeRuneInString\<close> reads
  the character at the start of a string, \<open>utf8.DecodeLastRuneInString\<close> the one at its
  end; both return the code point and its number of bytes, and \<open>RuneError\<close> with one byte
  where the bytes are no encoding of a character.
\<close>

definition RuneError :: int where "RuneError = 0xFFFD"

definition byte :: "char \<Rightarrow> int" where "byte c = of_char c"

definition DecodeRuneInString :: "string \<Rightarrow> int \<times> nat" where
  "DecodeRuneInString s =
     (case map byte (take 4 s) of
        [] \<Rightarrow> (RuneError, 0)
      | s0 # t0 \<Rightarrow>
          if s0 < 0x80 then (s0, 1)
          else if s0 < 0xC2 \<or> 0xF4 < s0 then (RuneError, 1)
          else
            (let sz = (if s0 < 0xE0 then 2 else if s0 < 0xF0 then 3 else 4 :: int);
                 lo = (if s0 = 0xE0 then 0xA0 else if s0 = 0xF0 then 0x90 else 0x80);
                 hi = (if s0 = 0xED then 0x9F else if s0 = 0xF4 then 0x8F else 0xBF)
             in (case t0 of
                   [] \<Rightarrow> (RuneError, 1)
                 | s1 # t1 \<Rightarrow>
                     if s1 < lo \<or> hi < s1 then (RuneError, 1)
                     else if sz = 2 then ((s0 mod 32) * 64 + s1 mod 64, 2)
                     else (case t1 of
                         [] \<Rightarrow> (RuneError, 1)
                       | s2 # t2 \<Rightarrow>
                           if s2 < 0x80 \<or> 0xBF < s2 then (RuneError, 1)
                           else if sz = 3
                           then ((s0 mod 16) * 4096 + (s1 mod 64) * 64 + s2 mod 64, 3)
                           else (case t2 of
                               [] \<Rightarrow> (RuneError, 1)
                             | s3 # _ \<Rightarrow>
                                 if s3 < 0x80 \<or> 0xBF < s3 then (RuneError, 1)
                                 else ((s0 mod 8) * 262144 + (s1 mod 64) * 4096
                                       + (s2 mod 64) * 64 + s3 mod 64, 4))))))"

definition RuneStart :: "char \<Rightarrow> bool" where
  \<comment> \<open>not a continuation byte \<open>10xxxxxx\<close>\<close>
  "RuneStart b = (byte b < 0x80 \<or> 0xBF < byte b)"

text \<open>
  Backwards, the start of the last character is looked for among the last four bytes;
  the bytes from there must be one character that reaches the end.
\<close>

definition DecodeLastRuneInString :: "string \<Rightarrow> int \<times> nat" where
  "DecodeLastRuneInString s =
     (case rev s of
        [] \<Rightarrow> (RuneError, 0)
      | c # cs \<Rightarrow>
          if byte c < 0x80 then (byte c, 1)
          else
            (let back = take 3 cs;
                 k = length (takeWhile (\<lambda>b. \<not> RuneStart b) back)
             in if k = length back then (RuneError, 1)
                else (case DecodeRuneInString (drop (length s - (k + 2)) s) of (r, n) \<Rightarrow>
                        if n = k + 2 then (r, n) else (RuneError, 1))))"

definition IsSpace :: "int \<Rightarrow> bool" where
  \<comment> \<open>\<open>unicode.IsSpace\<close>: the white space of Latin-1, then the property White_Space\<close>
  "IsSpace r =
     (if r \<le> 0xFF
      then r = 0x09 \<or> r = 0x0A \<or> r = 0x0B \<or> r = 0x0C \<or> r = 0x0D \<or> r = 0x20 \<or>
           r = 0x85 \<or> r = 0xA0
      else r = 0x1680 \<or> (0x2000 \<le> r \<and> r \<le> 0x200A) \<or> r = 0x2028 \<or> r = 0x2029 \<or>
           r = 0x202F \<or> r = 0x205F \<or> r = 0x3000)"

text \<open>
  \<open>strings.TrimSpace\<close> removes the white space of Unicode at both ends of a string:
  \<open>TrimLeftFunc\<close> drops the characters at the start that satisfy the predicate, read
  forwards, and \<open>TrimRightFunc\<close> those at the end, read backwards.
\<close>

function TrimLeftFunc :: "(int \<Rightarrow> bool) \<Rightarrow> string \<Rightarrow> string" where
  "TrimLeftFunc f s =
     (if s \<noteq> [] \<and> f (fst (DecodeRuneInString s))
      then TrimLeftFunc f (drop (snd (DecodeRuneInString s)) s) else s)"
  by pat_completeness auto

termination TrimLeftFunc
proof (relation "measure (\<lambda>(f, s). length s)")
  fix f :: "int \<Rightarrow> bool" and s :: string
  assume "s \<noteq> [] \<and> f (fst (DecodeRuneInString s))"
  then obtain c cs where s: "s = c # cs" by (cases s) auto
  have "0 < snd (DecodeRuneInString (c # cs))"
    by (simp add: DecodeRuneInString_def Let_def split: list.splits)
  with s show "((f, drop (snd (DecodeRuneInString s)) s), (f, s)) \<in> measure (\<lambda>(f, s). length s)"
    by simp
qed simp

function TrimRightFunc :: "(int \<Rightarrow> bool) \<Rightarrow> string \<Rightarrow> string" where
  "TrimRightFunc f s =
     (if s \<noteq> [] \<and> f (fst (DecodeLastRuneInString s))
      then TrimRightFunc f (take (length s - snd (DecodeLastRuneInString s)) s) else s)"
  by pat_completeness auto

termination TrimRightFunc
proof (relation "measure (\<lambda>(f, s). length s)")
  fix f :: "int \<Rightarrow> bool" and s :: string
  assume "s \<noteq> [] \<and> f (fst (DecodeLastRuneInString s))"
  then have s: "s \<noteq> []" by simp
  then have "0 < snd (DecodeLastRuneInString s)"
    by (cases "rev s") (auto simp: DecodeLastRuneInString_def Let_def split: prod.splits)
  with s show "((f, take (length s - snd (DecodeLastRuneInString s)) s), (f, s))
               \<in> measure (\<lambda>(f, s). length s)"
    by (cases s) auto
qed simp

definition TrimSpace :: "string \<Rightarrow> string" where
  "TrimSpace s = TrimRightFunc IsSpace (TrimLeftFunc IsSpace s)"

text \<open>Replacing every match of the pattern of two or more spaces by one space.\<close>

fun ReplaceAll_spaces :: "string \<Rightarrow> string" where
  "ReplaceAll_spaces [] = []"
| "ReplaceAll_spaces [c] = [c]"
| "ReplaceAll_spaces (a # b # cs) =
     (if a = sp \<and> b = sp then ReplaceAll_spaces (b # cs) else a # ReplaceAll_spaces (b # cs))"

text \<open>
  \<open>strings.Split(s, " ")\<close>: one more field than there are spaces, so at least one field.
\<close>

fun Split :: "string \<Rightarrow> string list" where
  "Split [] = [[]]"
| "Split (c # cs) =
     (if c = sp then [] # Split cs
      else (case Split cs of [] \<Rightarrow> [[c]] | f # fs \<Rightarrow> (c # f) # fs))"

text \<open>
  A \<open>bufio.Reader\<close> on the file is the list of the lines still to be read, each with its
  newline. \<open>ReadString('\n')\<close> returns the next one. Bytes after the last newline are no
  line: \<open>ReadString\<close> returns them together with the error \<open>io.EOF\<close>, and every caller here
  drops them.
\<close>

type_synonym reader = "string list"

fun lines_from :: "string \<Rightarrow> string \<Rightarrow> string list" where
  "lines_from acc [] = []"
| "lines_from acc (c # cs) =
     (if c = nl then (acc @ [c]) # lines_from [] cs else lines_from (acc @ [c]) cs)"

definition NewReader :: "string \<Rightarrow> reader" where
  "NewReader content = lines_from [] content"

definition ReadString :: "reader \<Rightarrow> (string \<times> reader) option" where
  "ReadString r = (case r of [] \<Rightarrow> None | line # r' \<Rightarrow> Some (line, r'))"

text \<open>
  \<open>make\<close> panics on a negative length and on a length whose memory exceeds the address
  space of the runtime (\<open>2 ^ 48\<close> bytes); the first argument is the size of an element.
\<close>

definition makeslice_ok :: "int \<Rightarrow> int \<Rightarrow> bool" where
  "makeslice_ok elemsize n = (0 \<le> n \<and> n * elemsize \<le> 2 ^ 48)"

subsection \<open>The functions of grid.go\<close>

definition stripSpaces :: "string \<Rightarrow> string" where
  \<comment> \<open>the pattern is a constant that compiles, so the error returned is always nil\<close>
  "stripSpaces s = ReplaceAll_spaces (TrimSpace s)"

definition readIntFromHeader :: "fmt \<Rightarrow> reader \<Rightarrow> string \<Rightarrow> bool \<Rightarrow> (int \<times> reader) out" where
  "readIntFromHeader sc r fieldName verbose =
     (case ReadString r of
        None \<Rightarrow> fail EOF
      | Some (line0, r') \<Rightarrow>
          bind_out (say_if verbose (Verbose (V_line line0))) (\<lambda>_.
            (let line = stripSpaces line0; field = Split line in
             (case field of
                [] \<Rightarrow> fail (Panic IndexOutOfRange)
              | field0 # rest \<Rightarrow>
                  bind_out (say_if (field0 \<noteq> fieldName) (HeaderExpected fieldName line)) (\<lambda>_.
                    (case rest of
                       [] \<Rightarrow> fail (Panic IndexOutOfRange)
                     | field1 # _ \<Rightarrow>
                         (case Sscanf_d sc field1 of
                            None \<Rightarrow> fail ScanError
                          | Some result \<Rightarrow>
                              bind_out (say_if verbose (Verbose (V_int fieldName result))) (\<lambda>_.
                                ret (result, r')))))))))"

definition readFloat32FromHeader :: "fmt \<Rightarrow> reader \<Rightarrow> string \<Rightarrow> bool \<Rightarrow> (f32 \<times> reader) out" where
  "readFloat32FromHeader sc r fieldName verbose =
     (case ReadString r of
        None \<Rightarrow> fail EOF
      | Some (line0, r') \<Rightarrow>
          bind_out (say_if verbose (Verbose (V_line line0))) (\<lambda>_.
            (let line = stripSpaces line0; field = Split line in
             (case field of
                [] \<Rightarrow> fail (Panic IndexOutOfRange)
              | field0 # rest \<Rightarrow>
                  bind_out (say_if (field0 \<noteq> fieldName) (HeaderExpected fieldName line)) (\<lambda>_.
                    (case rest of
                       [] \<Rightarrow> fail (Panic IndexOutOfRange)
                     | field1 # _ \<Rightarrow>
                         (case Sscanf_f sc field1 of
                            None \<Rightarrow> fail ScanError
                          | Some result \<Rightarrow>
                              bind_out (say_if verbose (Verbose (V_float fieldName result))) (\<lambda>_.
                                ret (result, r')))))))))"

text \<open>
  The two allocations of \<open>ReadGridFromFile\<close>: the slice of rows, then each row, all zero.
\<close>

definition make_height :: "int \<Rightarrow> int \<Rightarrow> f32 list list out" where
  "make_height nr nc =
     (if \<not> makeslice_ok 24 nr then fail (Panic MakesliceLenOutOfRange)
      else if 0 < nr \<and> \<not> makeslice_ok 4 nc then fail (Panic MakesliceLenOutOfRange)
      else ret (replicate (nat nr) (replicate (nat nc) (Fin 0))))"

text \<open>The loop \<open>for col := range numbers\<close> over the tokens of one row.\<close>

fun readCols :: "fmt \<Rightarrow> bool \<Rightarrow> Grid \<Rightarrow> int \<Rightarrow> int \<Rightarrow> string list \<Rightarrow> Grid out" where
  "readCols sc verbose g row col [] = ret g"
| "readCols sc verbose g row col (number # numbers) =
     (case Sscanf_f sc number of
        None \<Rightarrow> bind_out (say (ScanFailed row col)) (\<lambda>_. fail ScanError)
      | Some f \<Rightarrow>
          bind_out (SetHeight g row col f) (\<lambda>g'.
          bind_out (if verbose
                    then (case Height g' row col of
                            Inl e \<Rightarrow> fail e
                          | Inr h \<Rightarrow> say (Verbose (V_height row col h)))
                    else ret ()) (\<lambda>_.
            readCols sc verbose g' row (col + 1) numbers)))"

text \<open>
  The loop \<open>for row := 0;; row++\<close> over the lines after the header. It returns the grid
  and the number of lines counted.
\<close>

fun readRows :: "fmt \<Rightarrow> bool \<Rightarrow> string \<Rightarrow> int \<Rightarrow> Grid \<Rightarrow> int \<Rightarrow> int \<Rightarrow> reader \<Rightarrow> (Grid \<times> int) out" where
  "readRows sc verbose filename linesExpected g row lineNum [] = ret (g, lineNum)"
| "readRows sc verbose filename linesExpected g row lineNum (line0 # r) =
     (if lineNum + 1 > linesExpected
      then bind_out (say (TooManyLines filename linesExpected)) (\<lambda>_. ret (g, lineNum + 1))
      else
        (let line = stripSpaces line0 in
         bind_out (say_if verbose (Verbose (V_row line))) (\<lambda>_.
           (let numbers = Split line in
            if int (length numbers) > ncols g
            then bind_out (say (TooManyColumns (lineNum + 1) (length numbers) (ncols g))) (\<lambda>_.
                   readRows sc verbose filename linesExpected g (row + 1) (lineNum + 1) r)
            else if int (length numbers) < ncols g
            then bind_out (say (TooFewColumns (lineNum + 1) (length numbers) (ncols g))) (\<lambda>_.
                   readRows sc verbose filename linesExpected g (row + 1) (lineNum + 1) r)
            else bind_out (readCols sc verbose g row 0 numbers) (\<lambda>g'.
                   readRows sc verbose filename linesExpected g' (row + 1) (lineNum + 1) r)))))"

text \<open>The six header lines, in the order of the source, and the allocation between them.\<close>

definition readHeader :: "fmt \<Rightarrow> bool \<Rightarrow> reader \<Rightarrow> (Grid \<times> reader) out" where
  "readHeader sc verbose r0 =
     bind_out (readIntFromHeader sc r0 ''ncols'' verbose) (\<lambda>(nc, r1).
     bind_out (say_if verbose (Verbose (V_int ''ncols'' nc))) (\<lambda>_.
     bind_out (readIntFromHeader sc r1 ''nrows'' verbose) (\<lambda>(nr, r2).
     bind_out (say_if verbose (Verbose (V_int ''nrows'' nr))) (\<lambda>_.
     bind_out (make_height nr nc) (\<lambda>hs.
     bind_out (readFloat32FromHeader sc r2 ''xllcorner'' verbose) (\<lambda>(xll, r3).
     bind_out (say_if verbose (Verbose (V_float ''xllcorner'' xll))) (\<lambda>_.
     bind_out (readFloat32FromHeader sc r3 ''yllcorner'' verbose) (\<lambda>(yll, r4).
     bind_out (say_if verbose (Verbose (V_float ''yllcorner'' yll))) (\<lambda>_.
     bind_out (readFloat32FromHeader sc r4 ''cellsize'' verbose) (\<lambda>(cs, r5).
     bind_out (say_if verbose (Verbose (V_float ''cellsize'' cs))) (\<lambda>_.
     bind_out (readIntFromHeader sc r5 ''NODATA_value'' verbose) (\<lambda>(nd, r6).
     bind_out (say (NoDataValueIs nd)) (\<lambda>_.
       ret ((zero_Grid nc nr)\<lparr>xllcorner := xll, yllcorner := yll, cellsize := cs,
              noDataValue := nd, height := hs\<rparr>, r6))))))))))))))"

text \<open>
  \<open>os.Open\<close> succeeds on the files the map knows. The function returns the grid, or the
  error it returned, or the panic that ended it.
\<close>

definition ReadGridFromFile :: "fmt \<Rightarrow> (string \<rightharpoonup> string) \<Rightarrow> string \<Rightarrow> bool \<Rightarrow> Grid out" where
  "ReadGridFromFile sc files filename verbose =
     bind_out (say_if verbose (Verbose (V_file filename))) (\<lambda>_.
       (case files filename of
          None \<Rightarrow> bind_out (say (OpenFailed filename)) (\<lambda>_. fail OpenError)
        | Some content \<Rightarrow>
            bind_out (readHeader sc verbose (NewReader content)) (\<lambda>(g, r).
            bind_out (say (ReadingDataLines (nrows g))) (\<lambda>_.
              (let linesExpected = nrows g + 6 in
               bind_out (readRows sc verbose filename linesExpected g 0 6 r) (\<lambda>(g', lineNum).
               bind_out (say_if (lineNum < linesExpected)
                           (TooFewLines filename lineNum linesExpected)) (\<lambda>_.
               bind_out (say_if verbose (Verbose (V_minmax (maxHeight g') (minHeight g')))) (\<lambda>_.
                 ret g'))))))))"

subsection \<open>The scanners of package fmt\<close>

text \<open>
  \<open>go_fmt\<close> is \<open>fmt.Sscanf\<close> with the format \<open>%d\<close> into an \<open>int\<close> and with the format \<open>%f\<close>
  into a \<open>float32\<close>. Both skip white space, where a newline is an error, take the longest
  prefix that can belong to a number as the token, leave the rest unread, and convert
  the token with package \<open>strconv\<close>, for \<open>%f\<close> to the nearest binary32 value.
\<close>

definition is_digit :: "char \<Rightarrow> bool" where
  "is_digit c = (48 \<le> (of_char c :: int) \<and> (of_char c :: int) \<le> 57)"

definition dec_int :: "string \<Rightarrow> int" where
  "dec_int ds = foldl (\<lambda>n c. 10 * n + ((of_char c :: int) - 48)) 0 ds"

definition lower :: "char \<Rightarrow> char" where
  "lower c = (if 65 \<le> (of_char c :: int) \<and> (of_char c :: int) \<le> 90
              then char_of ((of_char c :: int) + 32) else c)"

definition take_sign :: "string \<Rightarrow> int \<times> string" where
  "take_sign s = (case s of
       [] \<Rightarrow> (1, [])
     | c # cs \<Rightarrow> if c = CHR ''-'' then (- 1, cs) else if c = CHR ''+'' then (1, cs) else (1, s))"

text \<open>
  \<open>SkipSpace\<close> of a scan that does not take a newline for a space: \<open>None\<close> is the error
  \<open>unexpected newline\<close>.
\<close>

function SkipSpace :: "string \<Rightarrow> string option" where
  "SkipSpace s =
     (if s = [] then Some []
      else (let r = fst (DecodeRuneInString s); s' = drop (snd (DecodeRuneInString s)) s in
            if r = 0x0D \<and> take 1 s' = [nl] then SkipSpace s'
            else if r = 0x0A then None
            else if IsSpace r then SkipSpace s'
            else Some s))"
  by pat_completeness auto

termination SkipSpace
proof (relation "measure length")
  fix s :: string and r :: int and s' :: string
  assume s: "s \<noteq> []" and s': "s' = drop (snd (DecodeRuneInString s)) s"
  from s obtain c cs where c: "s = c # cs" by (cases s) auto
  have "0 < snd (DecodeRuneInString (c # cs))"
    by (simp add: DecodeRuneInString_def Let_def split: list.splits)
  with c s' have less: "(s', s) \<in> measure length" by simp
  {
    assume "r = 0x0D \<and> take 1 s' = [nl]"
    from less show "(s', s) \<in> measure length" .
  next
    assume "IsSpace r"
    from less show "(s', s) \<in> measure length" .
  }
qed simp

text \<open>The verb \<open>%d\<close>: a sign, decimal digits, and a value of 64 bits.\<close>

definition scan_d :: "string \<Rightarrow> int option" where
  "scan_d s =
     (case SkipSpace s of
        None \<Rightarrow> None
      | Some s0 \<Rightarrow>
          (case take_sign s0 of (sg, s1) \<Rightarrow>
             (let ds = takeWhile is_digit s1; v = sg * dec_int ds in
              if ds = [] then None
              else if - 9223372036854775808 \<le> v \<and> v < 9223372036854775808 then Some v
              else None)))"

text \<open>
  The token of a floating-point number. \<open>accept\<close> moves the next character of the input
  to the token when it is one of the given ones, and says whether it did.
\<close>

type_synonym scan_state = "string \<times> string"

definition accept :: "string \<Rightarrow> scan_state \<Rightarrow> bool \<times> scan_state" where
  "accept ok st = (case st of (buf, inp) \<Rightarrow>
       (case inp of
          [] \<Rightarrow> (False, st)
        | c # cs \<Rightarrow> if c \<in> set ok then (True, (buf @ [c], cs)) else (False, st)))"

definition accept_all :: "string \<Rightarrow> scan_state \<Rightarrow> scan_state" where
  \<comment> \<open>\<open>for s.accept(ok) { }\<close>\<close>
  "accept_all ok st = (case st of (buf, inp) \<Rightarrow>
       (buf @ takeWhile (\<lambda>c. c \<in> set ok) inp, dropWhile (\<lambda>c. c \<in> set ok) inp))"

definition accept3 :: "string \<Rightarrow> string \<Rightarrow> string \<Rightarrow> scan_state \<Rightarrow> bool \<times> scan_state" where
  \<comment> \<open>\<open>s.accept(a) && s.accept(b) && s.accept(c)\<close>: what was accepted stays in the token\<close>
  "accept3 a b c st =
     (case accept a st of (ok1, st1) \<Rightarrow>
        if \<not> ok1 then (False, st1)
        else (case accept b st1 of (ok2, st2) \<Rightarrow>
          if \<not> ok2 then (False, st2) else accept c st2))"

definition floatToken :: "string \<Rightarrow> string" where
  "floatToken s =
     (case accept3 ''nN'' ''aA'' ''nN'' ([], s) of (got_nan, st1) \<Rightarrow>
        if got_nan then fst st1
        else (case accept3 ''iI'' ''nN'' ''fF'' (snd (accept ''+-'' st1)) of (got_inf, st2) \<Rightarrow>
          if got_inf then fst st2
          else (case accept ''0'' st2 of (got_0, st3) \<Rightarrow>
            (case (if got_0 then accept ''xX'' st3 else (False, st3)) of (got_x, st4) \<Rightarrow>
               (let digits = (if got_x then ''0123456789aAbBcCdDeEfF_'' else ''0123456789_'');
                    ex = (if got_x then ''pP'' else ''eEpP'');
                    st5 = accept_all digits st4
                in (case accept ''.'' st5 of (got_dot, st6) \<Rightarrow>
                     (let st7 = (if got_dot then accept_all digits st6 else st6) in
                      (case accept ex st7 of (got_e, st8) \<Rightarrow>
                         fst (if got_e then accept_all ''0123456789_'' (snd (accept ''+-'' st8))
                              else st8)))))))))"

text \<open>
  \<open>strconv.ParseFloat(s, 32)\<close>. The whole string must be a number: \<open>NaN\<close>, an infinity, a
  decimal number, or a hexadecimal one, which needs its exponent \<open>p\<close>. Underscores may
  separate digits. The value is rounded to the nearest binary32 value, and a value that
  rounds to an infinity is an error.
\<close>

definition is_hex_letter :: "char \<Rightarrow> bool" where
  "is_hex_letter c = (97 \<le> (of_char (lower c) :: int) \<and> (of_char (lower c) :: int) \<le> 102)"

definition digit_val :: "char \<Rightarrow> int" where
  "digit_val c = (if is_digit c then of_char c - 48 else of_char (lower c) - 87)"

definition mant_int :: "int \<Rightarrow> string \<Rightarrow> int" where
  "mant_int base ds = foldl (\<lambda>n c. base * n + digit_val c) 0 ds"

definition exp_int :: "string \<Rightarrow> int" where
  \<comment> \<open>the digits of an exponent: it stops growing at 10000\<close>
  "exp_int ds = foldl (\<lambda>e c. if e < 10000 then e * 10 + digit_val c else e) 0 ds"

fun underscoreOK_from :: "char \<Rightarrow> bool \<Rightarrow> string \<Rightarrow> bool" where
  "underscoreOK_from saw hex [] = (saw \<noteq> CHR ''_'')"
| "underscoreOK_from saw hex (c # cs) =
     (if is_digit c \<or> hex \<and> is_hex_letter c then underscoreOK_from (CHR ''0'') hex cs
      else if c = CHR ''_''
      then (if saw \<noteq> CHR ''0'' then False else underscoreOK_from (CHR ''_'') hex cs)
      else if saw = CHR ''_'' then False
      else underscoreOK_from (CHR ''!'') hex cs)"

definition underscoreOK :: "string \<Rightarrow> bool" where
  "underscoreOK s =
     (case take_sign s of (_, s1) \<Rightarrow>
        (case s1 of
           a # b # cs \<Rightarrow>
             if a = CHR ''0'' \<and> lower b \<in> {CHR ''b'', CHR ''o'', CHR ''x''}
             then underscoreOK_from (CHR ''0'') (lower b = CHR ''x'') cs
             else underscoreOK_from (CHR ''^'') False s1
         | _ \<Rightarrow> underscoreOK_from (CHR ''^'') False s1))"

text \<open>The digits of the mantissa with at most one point, and what follows them.\<close>

fun mantissa :: "bool \<Rightarrow> bool \<Rightarrow> string \<Rightarrow> string \<times> string" where
  "mantissa hex sawdot [] = ([], [])"
| "mantissa hex sawdot (c # cs) =
     (if c = CHR ''_'' \<or> is_digit c \<or> hex \<and> is_hex_letter c
      then (case mantissa hex sawdot cs of (m, r) \<Rightarrow> (c # m, r))
      else if c = CHR ''.'' \<and> \<not> sawdot
      then (case mantissa hex True cs of (m, r) \<Rightarrow> (c # m, r))
      else ([], c # cs))"

text \<open>The exponent and what follows it; a hexadecimal mantissa cannot go without.\<close>

definition exponent :: "bool \<Rightarrow> string \<Rightarrow> (int \<times> string) option" where
  "exponent hex r =
     (case r of
        [] \<Rightarrow> if hex then None else Some (0, [])
      | c # cs \<Rightarrow>
          if lower c = (if hex then CHR ''p'' else CHR ''e'')
          then (case take_sign cs of (esign, ds) \<Rightarrow>
                  (case ds of
                     [] \<Rightarrow> None
                   | d # _ \<Rightarrow>
                       if \<not> is_digit d then None
                       else (let part = (\<lambda>c. is_digit c \<or> c = CHR ''_'') in
                             Some (esign * exp_int (filter is_digit (takeWhile part ds)),
                                   dropWhile part ds))))
          else if hex then None else Some (0, r))"

definition ParseFloat32 :: "string \<Rightarrow> f32 option" where
  "ParseFloat32 s =
     (if map lower s = ''nan'' then Some NaN
      else (case take_sign s of (sg, s1) \<Rightarrow>
        if map lower s1 = ''inf'' \<or> map lower s1 = ''infinity'' then Some (inf_of_sign sg)
        else
          (let hex = (case s1 of a # b # _ # _ \<Rightarrow> a = CHR ''0'' \<and> lower b = CHR ''x''
                             | _ \<Rightarrow> False);
               m = fst (mantissa hex False (if hex then drop 2 s1 else s1));
               r = snd (mantissa hex False (if hex then drop 2 s1 else s1));
               ip = filter (\<lambda>c. c \<noteq> CHR ''_'') (takeWhile (\<lambda>c. c \<noteq> CHR ''.'') m);
               fp = filter (\<lambda>c. c \<noteq> CHR ''_'') (drop 1 (dropWhile (\<lambda>c. c \<noteq> CHR ''.'') m))
           in if ip = [] \<and> fp = [] then None
              else (case exponent hex r of
                  None \<Rightarrow> None
                | Some (e, rest) \<Rightarrow>
                    if rest \<noteq> [] then None
                    else if CHR ''_'' \<in> set s \<and> \<not> underscoreOK s then None
                    else (case rnd32 (of_int sg
                                  * of_int (mant_int (if hex then 16 else 10) (ip @ fp))
                                  * (if hex then 2 powi (e - 4 * int (length fp))
                                     else 10 powi (e - int (length fp)))) of
                       Fin v \<Rightarrow> Some (Fin v)
                     | _ \<Rightarrow> None)))))"

text \<open>
  \<open>convertFloat\<close> of the scanner: a decimal mantissa with a binary exponent, as in \<open>1.5p3\<close>,
  is computed here, with \<open>strconv.Atoi\<close> on the exponent and \<open>math.Ldexp\<close>; the conversion
  of the result to \<open>float32\<close> rounds again and may give an infinity.
\<close>

definition Atoi :: "string \<Rightarrow> int option" where
  "Atoi s =
     (case take_sign s of (sg, ds) \<Rightarrow>
        if ds \<noteq> [] \<and> list_all is_digit ds
        then (let v = sg * dec_int ds in
              if - 9223372036854775808 \<le> v \<and> v < 9223372036854775808 then Some v else None)
        else None)"

definition Ldexp32 :: "f32 \<Rightarrow> int \<Rightarrow> f32" where
  "Ldexp32 f m = (case f of Fin x \<Rightarrow> rnd32 (x * 2 powi m) | _ \<Rightarrow> f)"

definition convertFloat :: "string \<Rightarrow> f32 option" where
  "convertFloat str =
     (if CHR ''p'' \<in> set str \<and> CHR ''x'' \<notin> set str \<and> CHR ''X'' \<notin> set str
      then (case ParseFloat32 (takeWhile (\<lambda>c. c \<noteq> CHR ''p'') str) of
              None \<Rightarrow> None
            | Some f \<Rightarrow>
                (case Atoi (drop 1 (dropWhile (\<lambda>c. c \<noteq> CHR ''p'') str)) of
                   None \<Rightarrow> None
                 | Some m \<Rightarrow> Some (Ldexp32 f m)))
      else ParseFloat32 str)"

text \<open>The verb \<open>%f\<close>: the input must not be at its end after the white space.\<close>

definition scan_f :: "string \<Rightarrow> f32 option" where
  "scan_f s =
     (case SkipSpace s of
        None \<Rightarrow> None
      | Some s0 \<Rightarrow> if s0 = [] then None else convertFloat (floatToken s0))"

definition go_fmt :: fmt where
  "go_fmt = \<lparr>Sscanf_d = scan_d, Sscanf_f = scan_f\<rparr>"


section \<open>Package main: shading and drawing\<close>

subsection \<open>Conversion to uint8\<close>

text \<open>
  \<open>uint8(x)\<close> of a \<open>float32\<close> drops the fraction, towards zero. The Go specification
  leaves the result open when the integer does not fit; the compiler converts to a 32-bit
  integer and keeps its low byte, which is the integer modulo 256. (A finite binary32
  value of magnitude \<open>2 ^ 31\<close> or more is a multiple of 256, and the out-of-range result
  of the amd64 conversion instruction has low byte 0, so the rule covers every finite
  value there. The same instruction returns that result for NaN and the infinities.)
\<close>

definition trunc_int :: "rat \<Rightarrow> int" where
  "trunc_int x = (if 0 \<le> x then \<lfloor>x\<rfloor> else - \<lfloor>- x\<rfloor>)"

definition uint8_of_f32 :: "f32 \<Rightarrow> uint8" where
  "uint8_of_f32 x = (case x of Fin r \<Rightarrow> word_of_int (trunc_int r) | _ \<Rightarrow> 0)"

subsection \<open>The shader\<close>

text \<open>The four package variables that \<open>shade\<close> updates.\<close>

record tracker =
  maxShade :: uint8
  maxShadeSet :: bool
  minShade :: uint8
  minShadeSet :: bool

definition tracker0 :: tracker where
  "tracker0 = \<lparr>maxShade = 0, maxShadeSet = False, minShade = 0, minShadeSet = False\<rparr>"

definition shade_value :: "f32 \<Rightarrow> f32 \<Rightarrow> f32 \<Rightarrow> uint8" where
  \<comment> \<open>the first three statements of \<open>shade\<close>\<close>
  "shade_value floor0 ceiling0 height0 =
     (let height1 = f32_sub height0 floor0;
          ceiling1 = f32_sub ceiling0 floor0
      in 255 - uint8_of_f32 (f32_div (f32_mul height1 (Fin 256)) ceiling1))"

definition shade :: "bool \<Rightarrow> tracker \<Rightarrow> f32 \<Rightarrow> f32 \<Rightarrow> f32 \<Rightarrow> (Color \<times> tracker) out" where
  "shade verbose tr floor0 ceiling0 height0 =
     (let s = shade_value floor0 ceiling0 height0 in
      bind_out (say_if verbose (Verbose (V_shade s))) (\<lambda>_.
        (let tr1 = (if maxShadeSet tr
                    then (if maxShade tr < s then tr\<lparr>maxShade := s\<rparr> else tr)
                    else tr\<lparr>maxShade := s, maxShadeSet := True\<rparr>);
             tr2 = (if minShadeSet tr1
                    then (if s < minShade tr1 then tr1\<lparr>minShade := s\<rparr> else tr1)
                    else tr1\<lparr>minShade := s, minShadeSet := True\<rparr>)
         in ret (Gray s, tr2))))"

subsection \<open>The image\<close>

datatype RGBA = RGBA uint8 uint8 uint8 uint8

record Rectangle =
  min_x :: int
  min_y :: int
  max_x :: int
  max_y :: int

definition Rect :: "int \<Rightarrow> int \<Rightarrow> int \<Rightarrow> int \<Rightarrow> Rectangle" where
  \<comment> \<open>\<open>image.Rect\<close> orders each pair of coordinates\<close>
  "Rect x0 y0 x1 y1 = \<lparr>min_x = min x0 x1, min_y = min y0 y1, max_x = max x0 x1, max_y = max y0 y1\<rparr>"

definition Dx :: "Rectangle \<Rightarrow> int" where "Dx r = max_x r - min_x r"
definition Dy :: "Rectangle \<Rightarrow> int" where "Dy r = max_y r - min_y r"

definition In :: "int \<times> int \<Rightarrow> Rectangle \<Rightarrow> bool" where
  "In p r = (min_x r \<le> fst p \<and> fst p < max_x r \<and> min_y r \<le> snd p \<and> snd p < max_y r)"

record RGBA_image =
  bounds :: Rectangle
  pix :: "int \<times> int \<Rightarrow> RGBA"

definition NewRGBA :: "Rectangle \<Rightarrow> RGBA_image" where
  "NewRGBA r = \<lparr>bounds = r, pix = (\<lambda>_. RGBA 0 0 0 0)\<rparr>"

definition to_RGBA :: "Color \<Rightarrow> RGBA" where
  "to_RGBA c = (case c of Gray y \<Rightarrow> RGBA y y y 255)"

definition Set :: "RGBA_image \<Rightarrow> int \<Rightarrow> int \<Rightarrow> Color \<Rightarrow> RGBA_image" where
  \<comment> \<open>a point outside the bounds is ignored\<close>
  "Set img x y c = (if In (x, y) (bounds img) then img\<lparr>pix := (pix img)((x, y) := to_RGBA c)\<rparr>
                    else img)"

definition At :: "RGBA_image \<Rightarrow> int \<Rightarrow> int \<Rightarrow> RGBA" where
  \<comment> \<open>a point outside the bounds reads as the zero colour\<close>
  "At img x y = (if In (x, y) (bounds img) then pix img (x, y) else RGBA 0 0 0 0)"

subsection \<open>The drawing loops of main\<close>

function renderCols ::
  "bool \<Rightarrow> f32 \<Rightarrow> f32 \<Rightarrow> Grid \<Rightarrow> int \<Rightarrow> int \<Rightarrow> RGBA_image \<times> tracker \<Rightarrow> (RGBA_image \<times> tracker) out" where
  "renderCols verbose floor0 ceiling0 grid row col st =
     (if col < Ncols grid
      then (case Height grid row col of
              Inl e \<Rightarrow> fail e
            | Inr h \<Rightarrow>
                bind_out (shade verbose (snd st) floor0 ceiling0 h) (\<lambda>(c, tr).
                bind_out (say_if verbose (Verbose (V_colouring row col c))) (\<lambda>_.
                  renderCols verbose floor0 ceiling0 grid row (col + 1) (Set (fst st) col row c, tr))))
      else ret st)"
  by pat_completeness auto
termination
  by (relation "measure (\<lambda>(verbose, floor0, ceiling0, grid, row, col, st). nat (Ncols grid - col))") auto

function renderRows ::
  "bool \<Rightarrow> f32 \<Rightarrow> f32 \<Rightarrow> Grid \<Rightarrow> int \<Rightarrow> RGBA_image \<times> tracker \<Rightarrow> (RGBA_image \<times> tracker) out" where
  "renderRows verbose floor0 ceiling0 grid row st =
     (if 0 \<le> row
      then bind_out (renderCols verbose floor0 ceiling0 grid row 0 st) (\<lambda>st'.
             renderRows verbose floor0 ceiling0 grid (row - 1) st')
      else ret st)"
  by pat_completeness auto
termination
  by (relation "measure (\<lambda>(verbose, floor0, ceiling0, grid, row, st). nat (row + 1))") auto

text \<open>Both loops are unfolded one round at a time, by their equations.\<close>

declare renderCols.simps [simp del]

declare renderRows.simps [simp del]

definition render :: "bool \<Rightarrow> f32 \<Rightarrow> f32 \<Rightarrow> Grid \<Rightarrow> tracker \<Rightarrow> (RGBA_image \<times> tracker) out" where
  \<comment> \<open>from \<open>image.NewRGBA\<close> to the end of the loops\<close>
  "render verbose floor0 ceiling0 grid tr =
     (let img = NewRGBA (Rect 0 0 (Nrows grid) (Ncols grid));
          maxRow = Nrows grid - 1
      in renderRows verbose floor0 ceiling0 grid maxRow (img, tr))"

subsection \<open>main\<close>

text \<open>
  The command line, after \<open>flag.Parse\<close>: a floor or a ceiling is present when its flag was
  given, already converted to \<open>float32\<close>.
\<close>

record args =
  filename_flag :: string
  output_flag :: string
  floor_flag :: "f32 option"
  ceiling_flag :: "f32 option"
  verbose_flag :: bool

text \<open>
  The files of the machine and the paths at which a file can be created. \<open>os.Create\<close>
  makes the file empty, also when it existed.
\<close>

record world =
  files :: "string \<rightharpoonup> string"
  creatable :: "string \<Rightarrow> bool"

definition os_Create :: "world \<Rightarrow> string \<Rightarrow> error + world" where
  "os_Create w name = (if creatable w name then Inr (w\<lparr>files := (files w)(name \<mapsto> [])\<rparr>)
                       else Inl CreateError)"

text \<open>
  The library: the scanners, and the PNG encoder, which returns the bytes of the file or
  an error.
\<close>

record lib =
  scanners :: fmt
  png_Encode :: "RGBA_image \<Rightarrow> string option"

text \<open>
  A run of \<open>main\<close> ends with the files as they are then, the log, and the image drawn, or
  the error that made \<open>main\<close> return early, or the panic that ended the program.
\<close>

definition main :: "lib \<Rightarrow> world \<Rightarrow> args \<Rightarrow> world \<times> (error + RGBA_image) \<times> event list" where
  "main lb w a =
     (case os_Create w (output_flag a) of
        Inl e \<Rightarrow> (w, Inl e, [ErrorLogged e])
      | Inr w1 \<Rightarrow>
          (case ReadGridFromFile (scanners lb) (files w1) (filename_flag a) (verbose_flag a) of
             (Inl (Panic p), l) \<Rightarrow> (w1, Inl (Panic p), l)
           | (Inl e, l) \<Rightarrow> (w1, Inl e, l @ [ErrorLogged e])
           | (Inr grid, l) \<Rightarrow>
               (let floor0 = (case floor_flag a of
                                Some f \<Rightarrow> f
                              | None \<Rightarrow> f32_sub (MinHeight grid) (rnd32 (1 / 10)));
                    ceiling0 = (case ceiling_flag a of
                                  Some c \<Rightarrow> c
                                | None \<Rightarrow> f32_add (MaxHeight grid) (rnd32 (1 / 10)))
                in (case render (verbose_flag a) floor0 ceiling0 grid tracker0 of
                      (Inl e, l2) \<Rightarrow> (w1, Inl e, l @ [CreatingImage floor0 ceiling0] @ l2)
                    | (Inr (img, tr), l2) \<Rightarrow>
                        (let w2 = (case png_Encode lb img of
                                     None \<Rightarrow> w1
                                   | Some bytes \<Rightarrow> w1\<lparr>files := (files w1)(output_flag a \<mapsto> bytes)\<rparr>)
                         in (w2, Inr img,
                             l @ [CreatingImage floor0 ceiling0] @ l2 @
                             [EncodingImage,
                              Summary (Nrows grid) (Ncols grid) (MinHeight grid) (MaxHeight grid)
                                (minShade tr) (maxShade tr)]))))))"


section \<open>Predicates used in the statements\<close>

text \<open>
  The summary of a grid is in order when both flags agree and, once they are set, the
  greatest height is at least the least one.
\<close>

definition stats_ok :: "Grid \<Rightarrow> bool" where
  "stats_ok g = (maxHeightSet g = minHeightSet g \<and>
                 (if maxHeightSet g then f32_ge (maxHeight g) (minHeight g) else True))"

text \<open>
  A call of \<open>SetHeight\<close>, as its row, its column and its sample, passes the guard of the
  function when neither index is too large.
\<close>

definition accepted :: "Grid \<Rightarrow> int \<times> int \<times> f32 \<Rightarrow> bool" where
  "accepted g c = (case c of (row, col, h) \<Rightarrow> row < nrows g \<and> col < ncols g)"

text \<open>
  The shader as the specification words it: \<open>255 - floor8(height' * 256 / ceiling')\<close> with
  \<open>height' = height - floor\<close> and \<open>ceiling' = ceiling - floor\<close>, in floating-point
  arithmetic, where \<open>floor8\<close> takes the floor and keeps eight bits, wrapping around.
\<close>

definition floor8 :: "f32 \<Rightarrow> uint8" where
  "floor8 x = (case x of Fin r \<Rightarrow> word_of_int \<lfloor>r\<rfloor> | _ \<Rightarrow> 0)"

definition shade_spec :: "f32 \<Rightarrow> f32 \<Rightarrow> f32 \<Rightarrow> uint8" where
  "shade_spec floor0 ceiling0 height0 =
     255 - floor8 (f32_div (f32_mul (f32_sub height0 floor0) (Fin 256))
                           (f32_sub ceiling0 floor0))"

definition not_below_zero :: "f32 \<Rightarrow> bool" where
  "not_below_zero x = (case x of Fin r \<Rightarrow> 0 \<le> r | PInf \<Rightarrow> True | _ \<Rightarrow> False)"

text \<open>The example file of the comment in grid.go, each line ended by a newline.\<close>

definition example_4x4 :: string where
  "example_4x4 =
     ''ncols 4\<newline>'' @
     ''nrows 4\<newline>'' @
     ''xllcorner    513000\<newline>'' @
     ''yllcorner    152000\<newline>'' @
     ''cellsize     1\<newline>'' @
     ''NODATA_value -9999\<newline>'' @
     ''500 500 500 500\<newline>'' @
     ''500 500 500 500\<newline>'' @
     ''1000 1000 1000 1000\<newline>'' @
     ''1000 1000 1000 1000\<newline>''"

text \<open>The same file with only three values in its first row.\<close>

definition example_short_row :: string where
  "example_short_row =
     ''ncols 4\<newline>'' @
     ''nrows 4\<newline>'' @
     ''xllcorner    513000\<newline>'' @
     ''yllcorner    152000\<newline>'' @
     ''cellsize     1\<newline>'' @
     ''NODATA_value -9999\<newline>'' @
     ''500 500 500\<newline>'' @
     ''500 500 500 500\<newline>'' @
     ''1000 1000 1000 1000\<newline>'' @
     ''1000 1000 1000 1000\<newline>''"

text \<open>
  A line of the file has the wrong count for a grid of \<open>nc\<close> columns when the number of
  its tokens, after trimming and collapsing spaces, is not \<open>nc\<close>; the warning the reader
  then logs names the line number, the count found and the count expected.
\<close>

definition wrong_count :: "string \<Rightarrow> int \<Rightarrow> bool" where
  "wrong_count line0 nc = (int (length (Split (stripSpaces line0))) \<noteq> nc)"

definition count_warning :: "int \<Rightarrow> string \<Rightarrow> int \<Rightarrow> event" where
  "count_warning lineNum line0 nc =
     (let n = length (Split (stripSpaces line0)) in
      if int n > nc then TooManyColumns lineNum n nc else TooFewColumns lineNum n nc)"

text \<open>
  A grid has its shape when the height matrix has \<open>nrows\<close> rows of \<open>ncols\<close> values each;
  every grid that \<open>ReadGridFromFile\<close> returns has it (\<open>ReadGridFromFile_shaped\<close>).
\<close>

definition shaped :: "Grid \<Rightarrow> bool" where
  "shaped g = (0 \<le> nrows g \<and> (if 0 < nrows g then 0 \<le> ncols g else True) \<and>
               map length (height g) = replicate (nat (nrows g)) (nat (ncols g)))"

text \<open>The colour \<open>img.Set\<close> stores for the shade of the cell at \<open>row\<close>, \<open>col\<close>.\<close>

definition cell_colour :: "f32 \<Rightarrow> f32 \<Rightarrow> Grid \<Rightarrow> int \<Rightarrow> int \<Rightarrow> RGBA" where
  "cell_colour floor0 ceiling0 grid row col =
     to_RGBA (Gray (shade_value floor0 ceiling0 (height grid ! nat row ! nat col)))"

text \<open>
  The cells in the order the drawing loop came to them, read off the lines
  \<open>colouring cell[row[col]\<close> of a verbose log.
\<close>

fun visits :: "event list \<Rightarrow> (int \<times> int) list" where
  "visits [] = []"
| "visits (Verbose (V_colouring row col c) # es) = (row, col) # visits es"
| "visits (e # es) = visits es"


text \<open>The grid read from \<open>example_4x4\<close>.\<close>

definition example_grid :: Grid where
  "example_grid = (zero_Grid 4 4)\<lparr>xllcorner := Fin 513000, yllcorner := Fin 152000,
     cellsize := Fin 1, noDataValue := - 9999, maxHeightSet := True, maxHeight := Fin 1000,
     minHeightSet := True, minHeight := Fin 500,
     height := [[Fin 500, Fin 500, Fin 500, Fin 500],
                [Fin 500, Fin 500, Fin 500, Fin 500],
                [Fin 1000, Fin 1000, Fin 1000, Fin 1000],
                [Fin 1000, Fin 1000, Fin 1000, Fin 1000]]\<rparr>"

text \<open>A file of one row of four columns, and the grid read from it.\<close>

definition example_wide :: string where
  "example_wide =
     ''ncols 4\<newline>'' @
     ''nrows 1\<newline>'' @
     ''xllcorner    513000\<newline>'' @
     ''yllcorner    152000\<newline>'' @
     ''cellsize     1\<newline>'' @
     ''NODATA_value -9999\<newline>'' @
     ''500 500 500 500\<newline>''"

definition wide_grid :: Grid where
  "wide_grid = (zero_Grid 4 1)\<lparr>xllcorner := Fin 513000, yllcorner := Fin 152000,
     cellsize := Fin 1, noDataValue := - 9999, maxHeightSet := True, maxHeight := Fin 500,
     minHeightSet := True, minHeight := Fin 500,
     height := [[Fin 500, Fin 500, Fin 500, Fin 500]]\<rparr>"

text \<open>
  Two runs of \<open>main\<close> that fail: one where the input file does not exist, one where its
  first header value is not a number and an older output file exists.
\<close>

definition run_args :: args where
  "run_args = \<lparr>filename_flag = ''in'', output_flag = ''out.png'', floor_flag = None,
                ceiling_flag = None, verbose_flag = False\<rparr>"

definition no_input_world :: world where
  "no_input_world = \<lparr>files = Map.empty, creatable = (\<lambda>_. True)\<rparr>"

definition bad_input_world :: world where
  "bad_input_world = \<lparr>files = [''in'' \<mapsto> ''ncols x\<newline>'', ''out.png'' \<mapsto> ''old''],
                       creatable = (\<lambda>_. True)\<rparr>"


section \<open>Properties\<close>

subsection \<open>Sequencing\<close>

lemma bind_out_Inl [simp]: "bind_out (Inl e, l) f = (Inl e, l)"
  by (simp add: bind_out_def)

lemma bind_out_Inr [simp]: "bind_out (Inr x, l) f = (fst (f x), l @ snd (f x))"
  by (simp add: bind_out_def split: prod.splits)

lemma fst_bind_out: "fst (bind_out m f) = (case fst m of Inl e \<Rightarrow> Inl e | Inr x \<Rightarrow> fst (f x))"
  by (cases m) (auto simp: bind_out_def split: sum.splits prod.splits)

subsection \<open>SetHeight\<close>

lemma SetHeight_rejects:
  "nrows g \<le> row \<or> ncols g \<le> col \<Longrightarrow>
   SetHeight g row col h = (Inr g, [SetHeightOutOfRange row col])"
  by (simp add: SetHeight_def)

text \<open>
  Claim C4. \<open>SetHeight\<close> is to reject every index pair outside \<open>0 \<le> row < nrows\<close>,
  \<open>0 \<le> col < ncols\<close> and leave the grid as it is, without failing. Its guard compares
  with the upper bounds only (\<open>SetHeight_rejects\<close>). On a grid of four rows and four
  columns the call with row -1 and column 0 passes the guard and panics at the index
  expression.
\<close>

theorem SetHeight_negative_row_panics:
  "fst (SetHeight (zero_Grid 4 4) (- 1) 0 h) = Inl (Panic IndexOutOfRange)"
  by (simp add: SetHeight_def zero_Grid_def store2_def fail_def)

lemma f32_ge_refl: "h \<noteq> NaN \<Longrightarrow> f32_ge h h"
  by (cases h) (simp_all add: f32_ge_def)

lemma f32_ge_raise: "f32_ge a b \<Longrightarrow> f32_lt a h \<Longrightarrow> f32_ge h b"
  by (cases a; cases b; cases h) (simp_all add: f32_ge_def)

lemma f32_ge_lower: "f32_ge a b \<Longrightarrow> f32_lt h b \<Longrightarrow> f32_ge a h"
  by (cases a; cases b; cases h) (simp_all add: f32_ge_def)

lemma f32_lt_clash: "f32_ge a b \<Longrightarrow> f32_lt a h \<Longrightarrow> f32_lt h b \<Longrightarrow> False"
  by (cases a; cases b; cases h) (simp_all add: f32_ge_def)

lemma SetHeight_stats:
  assumes "SetHeight g row col h = (Inr g', l)" and "stats_ok g" and "maxHeightSet g \<or> h \<noteq> NaN"
  shows "stats_ok g' \<and> nrows g' = nrows g \<and> ncols g' = ncols g \<and>
         (maxHeightSet g \<longrightarrow> maxHeightSet g') \<and>
         (row < nrows g \<and> col < ncols g \<longrightarrow> maxHeightSet g')"
proof (cases "nrows g \<le> row \<or> ncols g \<le> col")
  case True
  with assms show ?thesis by (auto simp: SetHeight_def)
next
  case False
  with assms(1) obtain hs where hs: "store2 (height g) row col h = Some hs"
    by (auto simp: SetHeight_def fail_def split: option.splits)
  show ?thesis
  proof (cases "maxHeightSet g")
    case True
    with assms False hs show ?thesis
      by (auto simp: SetHeight_def ret_def stats_ok_def Let_def f32_gt_def
               intro: f32_ge_raise f32_ge_lower dest: f32_lt_clash split: if_splits)
  next
    case False
    with assms \<open>\<not> (nrows g \<le> row \<or> ncols g \<le> col)\<close> hs show ?thesis
      by (auto simp: SetHeight_def ret_def stats_ok_def Let_def f32_gt_def f32_ge_refl
               split: if_splits)
  qed
qed

lemma SetHeight_calls_keep:
  "stats_ok g \<Longrightarrow> maxHeightSet g \<Longrightarrow> fst (SetHeight_calls g cs) = Inr g' \<Longrightarrow>
   stats_ok g' \<and> maxHeightSet g'"
proof (induction cs arbitrary: g)
  case Nil
  then show ?case by (simp add: ret_def)
next
  case (Cons c cs)
  obtain row col h where c: "c = (row, col, h)" by (cases c)
  from Cons.prems(3) c obtain g1 l1 where s: "SetHeight g row col h = (Inr g1, l1)"
    and rest: "fst (SetHeight_calls g1 cs) = Inr g'"
    by (cases "SetHeight g row col h") (auto simp: fst_bind_out split: sum.splits)
  from SetHeight_stats [OF s Cons.prems(1)] Cons.prems(2)
  have "stats_ok g1" "maxHeightSet g1" by simp_all
  from Cons.IH [OF this rest] show ?case .
qed

lemma SetHeight_calls_first:
  "stats_ok g \<Longrightarrow> find (accepted g) cs = Some (row0, col0, h0) \<Longrightarrow> h0 \<noteq> NaN \<Longrightarrow>
   fst (SetHeight_calls g cs) = Inr g' \<Longrightarrow> stats_ok g' \<and> maxHeightSet g'"
proof (induction cs arbitrary: g)
  case Nil
  then show ?case by simp
next
  case (Cons c cs)
  obtain row col h where c: "c = (row, col, h)" by (cases c)
  from Cons.prems(4) c obtain g1 l1 where s: "SetHeight g row col h = (Inr g1, l1)"
    and rest: "fst (SetHeight_calls g1 cs) = Inr g'"
    by (cases "SetHeight g row col h") (auto simp: fst_bind_out split: sum.splits)
  show ?case
  proof (cases "accepted g c")
    case True
    with Cons.prems(2,3) c have "h \<noteq> NaN" by simp
    with SetHeight_stats [OF s Cons.prems(1)] True c
    have "stats_ok g1" "maxHeightSet g1" by (simp_all add: accepted_def)
    from SetHeight_calls_keep [OF this rest] show ?thesis .
  next
    case False
    with c s have "g1 = g" by (auto simp: accepted_def SetHeight_def)
    with False Cons.prems(2) have "find (accepted g1) cs = Some (row0, col0, h0)" by simp
    from Cons.IH [OF _ this Cons.prems(3) rest] Cons.prems(1) \<open>g1 = g\<close> show ?thesis by simp
  qed
qed

text \<open>
  Claim C9, amended. Start from a grid on which no sample has been set, and call
  \<open>SetHeight\<close> any number of times, with any samples. If no call panicked, at least one
  call passed the guard, and the sample of the first call that passed it is a number (an
  infinity is one, NaN is not), then \<open>MaxHeight() >= MinHeight()\<close>, and it still holds
  after one more call of \<open>SetHeight\<close>, whatever its arguments. The samples of the later
  calls may be NaN: such a sample is stored and leaves both extremes as they are.
\<close>

theorem max_ge_min_once_set:
  assumes "\<not> maxHeightSet g" and "\<not> minHeightSet g"
    and "fst (SetHeight_calls g cs) = Inr g'"
    and "find (accepted g) cs = Some (row0, col0, h0)" and "h0 \<noteq> NaN"
  shows "f32_ge (MaxHeight g') (MinHeight g') \<and>
         (\<forall>row col h g'' l. SetHeight g' row col h = (Inr g'', l) \<longrightarrow>
            f32_ge (MaxHeight g'') (MinHeight g''))"
proof -
  from assms(1,2) have "stats_ok g" by (simp add: stats_ok_def)
  from SetHeight_calls_first [OF this assms(4,5,3)]
  have ok: "stats_ok g'" and set: "maxHeightSet g'" by auto
  then have now: "f32_ge (MaxHeight g') (MinHeight g')"
    by (simp add: stats_ok_def MaxHeight_def MinHeight_def)
  have "f32_ge (MaxHeight g'') (MinHeight g'')" if "SetHeight g' row col h = (Inr g'', l)"
    for row col h g'' l
  proof -
    from SetHeight_stats [OF that ok] set have "stats_ok g''" "maxHeightSet g''" by auto
    then show ?thesis by (simp add: stats_ok_def MaxHeight_def MinHeight_def)
  qed
  with now show ?thesis by blast
qed

theorem max_ge_min_once_set_witness:
  "fst (SetHeight_calls (zero_Grid 2 2)
          [(5, 5, NaN), (0, 0, Fin 5), (0, 1, NaN), (1, 1, Fin 3)]) =
     Inr ((zero_Grid 2 2)\<lparr>maxHeightSet := True, maxHeight := Fin 5, minHeightSet := True,
            minHeight := Fin 3, height := [[Fin 5, NaN], [Fin 0, Fin 3]]\<rparr>) \<and>
   find (accepted (zero_Grid 2 2)) [(5, 5, NaN), (0, 0, Fin 5), (0, 1, NaN), (1, 1, Fin 3)]
     = Some (0, 0, Fin 5) \<and>
   f32_ge (Fin 5) (Fin 3)"
proof -
  let ?cs = "[(5, 5, NaN), (0, 0, Fin 5), (0, 1, NaN), (1, 1, Fin 3)]"
  let ?g' = "(zero_Grid 2 2)\<lparr>maxHeightSet := True, maxHeight := Fin 5, minHeightSet := True,
            minHeight := Fin 3, height := [[Fin 5, NaN], [Fin 0, Fin 3]]\<rparr>"
  have run: "fst (SetHeight_calls (zero_Grid 2 2) ?cs) = Inr ?g'"
    by (simp add: SetHeight_def zero_Grid_def store2_def ret_def f32_gt_def Let_def
                  numeral_2_eq_2)
  have fresh: "\<not> maxHeightSet (zero_Grid 2 2)" "\<not> minHeightSet (zero_Grid 2 2)"
    by (simp_all add: zero_Grid_def)
  have first: "find (accepted (zero_Grid 2 2)) ?cs = Some (0, 0, Fin 5)"
    by (simp add: accepted_def zero_Grid_def)
  from max_ge_min_once_set [OF fresh run first]
  have "f32_ge (MaxHeight ?g') (MinHeight ?g')" by blast
  with run first show ?thesis by (simp add: MaxHeight_def MinHeight_def)
qed

text \<open>
  The claim as the specification words it fails when the first sample is NaN, which the
  parser reads from the token \<open>nan\<close>: on an empty grid of two rows and two columns the
  calls \<open>SetHeight(0, 0, NaN)\<close>, \<open>SetHeight(0, 1, 3)\<close>, \<open>SetHeight(1, 1, 9)\<close> all store their
  sample, both extremes stay NaN, and \<open>MaxHeight() >= MinHeight()\<close> is false.
\<close>

theorem NaN_first_breaks_max_ge_min:
  "fst (SetHeight_calls (zero_Grid 2 2) [(0, 0, NaN), (0, 1, Fin 3), (1, 1, Fin 9)]) =
     Inr ((zero_Grid 2 2)\<lparr>maxHeightSet := True, maxHeight := NaN, minHeightSet := True,
            minHeight := NaN, height := [[NaN, Fin 3], [Fin 0, Fin 9]]\<rparr>) \<and>
   MaxHeight ((zero_Grid 2 2)\<lparr>maxHeightSet := True, maxHeight := NaN, minHeightSet := True,
            minHeight := NaN, height := [[NaN, Fin 3], [Fin 0, Fin 9]]\<rparr>) = NaN \<and>
   MinHeight ((zero_Grid 2 2)\<lparr>maxHeightSet := True, maxHeight := NaN, minHeightSet := True,
            minHeight := NaN, height := [[NaN, Fin 3], [Fin 0, Fin 9]]\<rparr>) = NaN \<and>
   \<not> f32_ge NaN NaN \<and>
   Sscanf_f go_fmt ''nan'' = Some NaN"
proof -
  have "Sscanf_f go_fmt ''nan'' = Some NaN"
    unfolding go_fmt_def fmt.simps by code_simp
  then show ?thesis
    by (simp add: SetHeight_def zero_Grid_def store2_def ret_def f32_gt_def f32_ge_def
          Let_def numeral_2_eq_2 MaxHeight_def MinHeight_def)
qed

subsection \<open>A header line without a value\<close>

lemma readIntFromHeader_panics:
  "length (Split (stripSpaces l)) = 1 \<Longrightarrow>
   fst (readIntFromHeader sc (l # r) fieldName verbose) = Inl (Panic IndexOutOfRange)"
  by (auto simp: readIntFromHeader_def ReadString_def say_if_def fail_def Let_def
           split: list.splits)

lemma readFloat32FromHeader_panics:
  "length (Split (stripSpaces l)) = 1 \<Longrightarrow>
   fst (readFloat32FromHeader sc (l # r) fieldName verbose) = Inl (Panic IndexOutOfRange)"
  by (auto simp: readFloat32FromHeader_def ReadString_def say_if_def fail_def Let_def
           split: list.splits)

lemma fields_ncols_alone: "Split (stripSpaces ''ncols\<newline>'') = [''ncols'']"
  by code_simp

text \<open>
  Claim C10. There are inputs on which the parser returns no error but panics: when the
  first line of the file is a single token after trimming and collapsing spaces,
  \<open>readIntFromHeader\<close> reads \<open>field[1]\<close> of a slice of length one, and so
  \<open>ReadGridFromFile\<close> ends in an index panic. The file of the one line \<open>ncols\<close> is such
  an input.
\<close>

theorem header_without_value_panics:
  assumes "NewReader content = l # r" and "length (Split (stripSpaces l)) = 1"
  shows "fst (ReadGridFromFile sc (fs(name \<mapsto> content)) name verbose)
         = Inl (Panic IndexOutOfRange)"
  using assms readIntFromHeader_panics [of l sc r "''ncols''" verbose]
  by (simp add: ReadGridFromFile_def readHeader_def fst_bind_out say_if_def)

theorem header_without_value_panics_witness:
  "NewReader (''ncols'' @ [nl]) = [''ncols'' @ [nl]] \<and>
   length (Split (stripSpaces (''ncols'' @ [nl]))) = 1 \<and>
   fst (ReadGridFromFile go_fmt [''TT'' \<mapsto> ''ncols'' @ [nl]] ''TT'' False)
     = Inl (Panic IndexOutOfRange)"
  using header_without_value_panics
          [of "''ncols'' @ [nl]" "''ncols'' @ [nl]" "[]" go_fmt Map.empty "''TT''" False]
  by (simp add: NewReader_def nl_def fields_ncols_alone)


subsection \<open>The shader\<close>

lemma round_even_nonneg: "0 \<le> y \<Longrightarrow> 0 \<le> round_even y"
  by (simp add: round_even_def Let_def)

lemma rnd32_nonneg: "0 \<le> x \<Longrightarrow> not_below_zero (rnd32 x)"
proof (cases "x = 0")
  case True
  then show ?thesis by (simp add: rnd32_def not_below_zero_def)
next
  case False
  assume "0 \<le> x"
  with False have pos: "0 < x" by simp
  define q :: rat where "q = 2 powi (max (ilog2 \<bar>x\<bar>) (- 126) - 23)"
  have q: "0 < q" by (simp add: q_def)
  with pos have "0 \<le> x / q" by simp
  then have "0 \<le> round_even (x / q)" by (rule round_even_nonneg)
  with q have "0 \<le> rat_of_int (round_even (x / q)) * q" by simp
  with pos False show ?thesis
    by (simp add: rnd32_def Let_def not_below_zero_def q_def)
qed

lemma sub_not_below_zero: "f \<le> h \<Longrightarrow> not_below_zero (f32_sub (Fin h) (Fin f))"
  using rnd32_nonneg [of "h - f"] by (simp add: f32_sub_def)

lemma mul_not_below_zero: "not_below_zero a \<Longrightarrow> not_below_zero (f32_mul a (Fin 256))"
  by (cases a) (auto simp: not_below_zero_def inf_of_sign_def
                     intro: rnd32_nonneg [unfolded not_below_zero_def])

lemma div_floor8:
  "not_below_zero a \<Longrightarrow> not_below_zero b \<Longrightarrow>
   uint8_of_f32 (f32_div a b) = floor8 (f32_div a b)"
proof (cases a; cases b)
  fix x y assume a: "a = Fin x" and b: "b = Fin y" and "not_below_zero a" "not_below_zero b"
  then have xy: "0 \<le> x" "0 \<le> y" by (simp_all add: not_below_zero_def)
  show ?thesis
  proof (cases "y = 0")
    case True
    with a b show ?thesis by (simp add: uint8_of_f32_def floor8_def inf_of_sign_def)
  next
    case False
    with xy have "0 \<le> x / y" by simp
    from rnd32_nonneg [OF this] a b False show ?thesis
      by (auto simp: uint8_of_f32_def floor8_def not_below_zero_def trunc_int_def
               split: f32.splits)
  qed
qed (auto simp: not_below_zero_def uint8_of_f32_def floor8_def inf_of_sign_def trunc_int_def)

lemma shade_colour:
  "\<exists>tr'. shade verbose tr floor0 ceiling0 height0
     = (Inr (Gray (shade_value floor0 ceiling0 height0), tr'),
        if verbose then [Verbose (V_shade (shade_value floor0 ceiling0 height0))] else [])"
  by (simp add: shade_def Let_def say_if_def ret_def)

lemma shade_value_at_floor: "shade_value (Fin f) (Fin c) (Fin f) = 255"
proof -
  have "f32_mul (f32_sub (Fin f) (Fin f)) (Fin 256) = Fin 0"
    by (simp add: f32_sub_def rnd32_def)
  moreover have "uint8_of_f32 (f32_div (Fin 0) b) = 0" for b
    by (cases b) (simp_all add: uint8_of_f32_def rnd32_def trunc_int_def)
  ultimately show ?thesis by (simp add: shade_value_def)
qed

lemma shade_value_0_1000_500: "shade_value (Fin 0) (Fin 1000) (Fin 500) = 127"
  by code_simp

lemma shade_spec_0_1000_500: "shade_spec (Fin 0) (Fin 1000) (Fin 500) = 127"
  by code_simp

lemma shade_value_0_1000_1000: "shade_value (Fin 0) (Fin 1000) (Fin 1000) = 255"
  by code_simp

lemma shade_value_below_floor: "shade_value (Fin 0) (Fin 1000) (Fin (- 1)) = 255"
  by code_simp

lemma shade_spec_below_floor: "shade_spec (Fin 0) (Fin 1000) (Fin (- 1)) = 0"
  by code_simp

text \<open>
  Claim C1. A height at the floor is to give intensity 255 and a height at the ceiling
  an intensity that rounds to 0. The first holds (\<open>shade_value_at_floor\<close>). At the ceiling
  the quotient \<open>height' * 256 / ceiling'\<close> is exactly 256, which does not fit eight bits
  and becomes 0, so the intensity is 255 again: with floor 0 and ceiling 1000 the height
  1000 is drawn white, not black.
\<close>

theorem shade_at_ceiling_is_255:
  "shade_value (Fin 0) (Fin 1000) (Fin 1000) = 255 \<and>
   (\<exists>tr'. fst (shade verbose tr (Fin 0) (Fin 1000) (Fin 1000)) = Inr (Gray 255, tr'))"
  using shade_colour [of verbose tr "Fin 0" "Fin 1000" "Fin 1000"] shade_value_0_1000_1000
  by auto

text \<open>
  Claim C6, as amended. For a finite floor below a finite ceiling and a finite height
  that is not below the floor, \<open>shade\<close> returns the intensity
  \<open>255 - floor8((height - floor) * 256 / (ceiling - floor))\<close>, kept to eight bits with
  wrap-around and without clamping; and \<open>shade(0, 1000, 500)\<close> is 127.
\<close>

theorem shade_is_floor8_formula:
  assumes "f < c" and "f \<le> h"
  shows "(\<exists>tr'. fst (shade verbose tr (Fin f) (Fin c) (Fin h))
            = Inr (Gray (shade_spec (Fin f) (Fin c) (Fin h)), tr')) \<and>
         (\<exists>tr'. fst (shade verbose tr (Fin 0) (Fin 1000) (Fin 500)) = Inr (Gray 127, tr'))"
proof -
  from assms have "not_below_zero (f32_mul (f32_sub (Fin h) (Fin f)) (Fin 256))"
    and "not_below_zero (f32_sub (Fin c) (Fin f))"
    by (simp_all add: sub_not_below_zero mul_not_below_zero)
  then have "shade_value (Fin f) (Fin c) (Fin h) = shade_spec (Fin f) (Fin c) (Fin h)"
    by (simp add: shade_value_def shade_spec_def Let_def div_floor8)
  with shade_colour [of verbose tr "Fin f" "Fin c" "Fin h"]
    shade_colour [of verbose tr "Fin 0" "Fin 1000" "Fin 500"] shade_value_0_1000_500
  show ?thesis by auto
qed

theorem shade_is_floor8_formula_witness:
  "(0::rat) < 1000 \<and> (0::rat) \<le> 500 \<and>
   (\<exists>tr'. fst (shade False tracker0 (Fin 0) (Fin 1000) (Fin 500)) = Inr (Gray 127, tr'))"
  using shade_is_floor8_formula [of 0 1000 500 False tracker0] shade_spec_0_1000_500
  by simp

text \<open>
  Claim C6 as stated fails below the floor: the conversion to \<open>uint8\<close> drops the fraction
  towards zero, it does not take the floor. With floor 0 and ceiling 1000, the height -1
  has the quotient -0.256, which the code converts to 0 and the formula to -1, that is
  255: the code returns 255 and the formula 0.
\<close>

theorem shade_below_floor_is_not_floor8:
  "f32_lt (Fin 0) (Fin 1000) \<and>
   (\<forall>tr'. fst (shade False tracker0 (Fin 0) (Fin 1000) (Fin (- 1)))
       \<noteq> Inr (Gray (shade_spec (Fin 0) (Fin 1000) (Fin (- 1))), tr')) \<and>
   (\<exists>tr'. fst (shade False tracker0 (Fin 0) (Fin 1000) (Fin (- 1))) = Inr (Gray 255, tr'))"
  using shade_colour [of False tracker0 "Fin 0" "Fin 1000" "Fin (- 1)"]
    shade_value_below_floor shade_spec_below_floor
  by auto


subsection \<open>Rows with a wrong number of values\<close>


lemma bind_out_eq_Inr:
  "bind_out m f = (Inr y, l) \<longleftrightarrow> (\<exists>x l1 l2. m = (Inr x, l1) \<and> f x = (Inr y, l2) \<and> l = l1 @ l2)"
  by (cases m; cases "fst m") (auto simp: bind_out_def split: prod.splits)

lemma say_if_eq [simp]: "say_if b e = (Inr u, l) \<longleftrightarrow> l = (if b then [e] else [])"
  by (auto simp: say_if_def)

lemma say_eq [simp]: "say e = (Inr u, l) \<longleftrightarrow> l = [e]"
  by (auto simp: say_def)

lemma ret_eq [simp]: "ret x = (Inr y, l) \<longleftrightarrow> x = y \<and> l = []"
  by (auto simp: ret_def)

lemma fail_eq [simp]: "fail e \<noteq> (Inr y, l)"
  by (simp add: fail_def)

lemma readRows_skip:
  assumes "wrong_count line0 (ncols g)" and "lineNum + 1 \<le> linesExpected"
  shows "readRows sc verbose filename linesExpected g row lineNum (line0 # r) =
     bind_out (say_if verbose (Verbose (V_row (stripSpaces line0)))) (\<lambda>_.
     bind_out (say (count_warning (lineNum + 1) line0 (ncols g))) (\<lambda>_.
       readRows sc verbose filename linesExpected g (row + 1) (lineNum + 1) r))"
  using assms by (auto simp: wrong_count_def count_warning_def Let_def)

lemma SetHeight_frame:
  assumes "SetHeight g row col h = (Inr g', l)" and "0 \<le> row"
  shows "ncols g' = ncols g \<and> nrows g' = nrows g \<and> length (height g') = length (height g) \<and>
         (\<forall>k. k \<noteq> nat row \<longrightarrow> height g' ! k = height g ! k)"
  using assms
  by (auto simp: SetHeight_def store2_def Let_def split: if_splits option.splits)

lemma readCols_frame:
  "readCols sc verbose g row col numbers = (Inr g', l) \<Longrightarrow> 0 \<le> row \<Longrightarrow>
   ncols g' = ncols g \<and> nrows g' = nrows g \<and> length (height g') = length (height g) \<and>
   (\<forall>k. k \<noteq> nat row \<longrightarrow> height g' ! k = height g ! k)"
proof (induction numbers arbitrary: g col l)
  case Nil
  then show ?case by simp
next
  case (Cons number numbers)
  from Cons.prems(1) obtain f g1 l1 l2 where
    s: "SetHeight g row col f = (Inr g1, l1)" and
    rest: "readCols sc verbose g1 row (col + 1) numbers = (Inr g', l2)"
    by (auto simp: bind_out_eq_Inr split: option.splits if_splits sum.splits)
  from SetHeight_frame [OF s Cons.prems(2)] Cons.IH [OF rest Cons.prems(2)]
  show ?case by simp
qed


lemma readRows_keeps:
  "readRows sc verbose filename le g row lineNum r = (Inr (g', n), lg) \<Longrightarrow> 0 \<le> row \<Longrightarrow>
   ncols g' = ncols g \<and> nrows g' = nrows g \<and> length (height g') = length (height g) \<and>
   (\<forall>k. int k < row \<longrightarrow> height g' ! k = height g ! k) \<and>
   (\<forall>j < length r. lineNum + 1 + int j \<le> le \<longrightarrow> wrong_count (r ! j) (ncols g) \<longrightarrow>
       height g' ! nat (row + int j) = height g ! nat (row + int j) \<and>
       count_warning (lineNum + 1 + int j) (r ! j) (ncols g) \<in> set lg)"
proof (induction r arbitrary: g row lineNum lg)
  case Nil
  then show ?case by simp
next
  case (Cons line0 r)
  show ?case
  proof (cases "lineNum + 1 > le")
    case True
    with Cons.prems(1) have "g' = g" by (auto simp: bind_out_eq_Inr)
    with True show ?thesis by auto
  next
    case inside: False
    show ?thesis
    proof (cases "wrong_count line0 (ncols g)")
      case True
      from inside have le': "lineNum + 1 \<le> le" by simp
      from Cons.prems(1) [unfolded readRows_skip [OF True le']] obtain lg2 where
        rest: "readRows sc verbose filename le g (row + 1) (lineNum + 1) r = (Inr (g', n), lg2)"
        and lg: "lg = (if verbose then [Verbose (V_row (stripSpaces line0))] else [])
                        @ [count_warning (lineNum + 1) line0 (ncols g)] @ lg2"
        by (auto simp: bind_out_eq_Inr simp del: readRows.simps)
      from Cons.prems(2) have row1: "0 \<le> row + 1" by simp
      note IH = Cons.IH [OF rest row1]
      have keep: "\<forall>k. int k < row + 1 \<longrightarrow> height g' ! k = height g ! k" using IH by blast
      have "height g' ! nat (row + int j) = height g ! nat (row + int j) \<and>
            count_warning (lineNum + 1 + int j) ((line0 # r) ! j) (ncols g) \<in> set lg"
        if j: "j < length (line0 # r)" and le: "lineNum + 1 + int j \<le> le"
          and w: "wrong_count ((line0 # r) ! j) (ncols g)" for j
      proof (cases j)
        case 0
        with keep Cons.prems(2) lg show ?thesis by simp
      next
        case (Suc j')
        with j le w IH have
          "height g' ! nat (row + 1 + int j') = height g ! nat (row + 1 + int j') \<and>
           count_warning (lineNum + 1 + 1 + int j') (r ! j') (ncols g) \<in> set lg2"
          by simp
        with Suc lg show ?thesis by (simp add: add.commute add.left_commute)
      qed
      with IH show ?thesis by simp
    next
      case False
      with Cons.prems(1) inside obtain g1 l1 lg2 where
        cols: "readCols sc verbose g row 0 (Split (stripSpaces line0)) = (Inr g1, l1)"
        and rest: "readRows sc verbose filename le g1 (row + 1) (lineNum + 1) r = (Inr (g', n), lg2)"
        and lg: "lg = (if verbose then [Verbose (V_row (stripSpaces line0))] else []) @ l1 @ lg2"
        by (auto simp: bind_out_eq_Inr wrong_count_def Let_def split: if_splits)
      from Cons.prems(2) have row1: "0 \<le> row + 1" by simp
      note F = readCols_frame [OF cols Cons.prems(2)]
      note IH = Cons.IH [OF rest row1]
      have below: "height g' ! k = height g ! k" if "int k < row" for k
      proof -
        from that have "k \<noteq> nat row" by linarith
        with F have "height g1 ! k = height g ! k" by blast
        moreover from that IH have "height g' ! k = height g1 ! k" by simp
        ultimately show ?thesis by simp
      qed
      have "height g' ! nat (row + int j) = height g ! nat (row + int j) \<and>
            count_warning (lineNum + 1 + int j) ((line0 # r) ! j) (ncols g) \<in> set lg"
        if j: "j < length (line0 # r)" and le: "lineNum + 1 + int j \<le> le"
          and w: "wrong_count ((line0 # r) ! j) (ncols g)" for j
      proof (cases j)
        case 0
        with w False show ?thesis by simp
      next
        case (Suc j')
        with j le w IH F have
          "height g' ! nat (row + 1 + int j') = height g1 ! nat (row + 1 + int j') \<and>
           count_warning (lineNum + 1 + 1 + int j') (r ! j') (ncols g) \<in> set lg2"
          by simp
        moreover from Cons.prems(2) have "nat (row + 1 + int j') \<noteq> nat row" by linarith
        with F have "height g1 ! nat (row + 1 + int j') = height g ! nat (row + 1 + int j')"
          by blast
        ultimately show ?thesis using Suc lg by (simp add: add.commute add.left_commute)
      qed
      with IH F below show ?thesis by simp
    qed
  qed
qed


lemma readIntFromHeader_tail:
  "readIntFromHeader sc r fieldName verbose = (Inr (x, r'), l) \<Longrightarrow> r \<noteq> [] \<and> r' = tl r"
  by (cases r)
     (auto simp: readIntFromHeader_def ReadString_def bind_out_eq_Inr Let_def
           split: list.splits option.splits)

lemma readFloat32FromHeader_tail:
  "readFloat32FromHeader sc r fieldName verbose = (Inr (x, r'), l) \<Longrightarrow> r \<noteq> [] \<and> r' = tl r"
  by (cases r)
     (auto simp: readFloat32FromHeader_def ReadString_def bind_out_eq_Inr Let_def
           split: list.splits option.splits)

lemma make_height_zero:
  "make_height nr nc = (Inr hs, l) \<Longrightarrow> hs = replicate (nat nr) (replicate (nat nc) (Fin 0))"
  by (auto simp: make_height_def split: if_splits)

lemma tl6: "r1 = tl r0 \<Longrightarrow> r2 = tl r1 \<Longrightarrow> r3 = tl r2 \<Longrightarrow> r4 = tl r3 \<Longrightarrow> r5 = tl r4 \<Longrightarrow>
  r6 = tl r5 \<Longrightarrow> r6 = drop 6 r0"
  by (simp add: drop_Suc eval_nat_numeral tl_drop)

lemma readHeader_result:
  assumes "readHeader sc verbose r0 = (Inr (g, r), l)"
  shows "r = drop 6 r0 \<and>
         height g = replicate (nat (nrows g)) (replicate (nat (ncols g)) (Fin 0))"
proof -
  from assms obtain nc nr xll yll cs nd r1 r2 r3 r4 r5 hs l1 l2 l3 l4 l5 l6 l7 where
    h1: "readIntFromHeader sc r0 ''ncols'' verbose = (Inr (nc, r1), l1)" and
    h2: "readIntFromHeader sc r1 ''nrows'' verbose = (Inr (nr, r2), l2)" and
    mk: "make_height nr nc = (Inr hs, l3)" and
    h3: "readFloat32FromHeader sc r2 ''xllcorner'' verbose = (Inr (xll, r3), l4)" and
    h4: "readFloat32FromHeader sc r3 ''yllcorner'' verbose = (Inr (yll, r4), l5)" and
    h5: "readFloat32FromHeader sc r4 ''cellsize'' verbose = (Inr (cs, r5), l6)" and
    h6: "readIntFromHeader sc r5 ''NODATA_value'' verbose = (Inr (nd, r), l7)" and
    g: "g = (zero_Grid nc nr)\<lparr>xllcorner := xll, yllcorner := yll, cellsize := cs,
              noDataValue := nd, height := hs\<rparr>"
    unfolding readHeader_def
    by (auto simp: bind_out_eq_Inr split: prod.splits)
  from h1 h2 h3 h4 h5 h6 have "r = drop 6 r0"
    by (intro tl6 [of r1 r0 r2 r3 r4 r5 r])
       (simp_all add: readIntFromHeader_tail readFloat32FromHeader_tail)
  moreover from mk g have
    "height g = replicate (nat (nrows g)) (replicate (nat (ncols g)) (Fin 0))"
    by (simp add: zero_Grid_def make_height_zero)
  ultimately show ?thesis by simp
qed

lemma ReadGridFromFile_result:
  assumes "fs name = Some content" and "ReadGridFromFile sc fs name verbose = (Inr g, lg)"
  shows "\<exists>g0 r l0 n l1. readHeader sc verbose (NewReader content) = (Inr (g0, r), l0) \<and>
           readRows sc verbose name (nrows g0 + 6) g0 0 6 r = (Inr (g, n), l1) \<and>
           set l1 \<subseteq> set lg"
  using assms unfolding ReadGridFromFile_def
  by (fastforce simp: bind_out_eq_Inr Let_def split: prod.splits
                simp del: bind_out_Inr bind_out_Inl)

text \<open>
  Claim C7. Take a file that \<open>ReadGridFromFile\<close> reads to a grid, and a row \<open>i\<close> of the
  grid whose line in the file (line \<open>7 + i\<close>) has a token count other than \<open>ncols\<close>. Then
  row \<open>i\<close> of the height matrix is still all zero, the warning for that line is in the
  log, and the loop went on: on such a line, within the lines expected, the loop ends as
  it ends on the lines after it, from the same grid.
\<close>

theorem wrong_count_row_is_skipped:
  assumes "fs name = Some content"
    and "ReadGridFromFile sc fs name verbose = (Inr g, lg)"
    and "i < nat (nrows g)" and "6 + i < length (NewReader content)"
    and "wrong_count (NewReader content ! (6 + i)) (ncols g)"
  shows "height g ! i = replicate (nat (ncols g)) (Fin 0) \<and>
         count_warning (7 + int i) (NewReader content ! (6 + i)) (ncols g) \<in> set lg \<and>
         (\<forall>g0 row lineNum line0 r le. wrong_count line0 (ncols g0) \<longrightarrow> lineNum + 1 \<le> le \<longrightarrow>
            fst (readRows sc verbose name le g0 row lineNum (line0 # r))
            = fst (readRows sc verbose name le g0 (row + 1) (lineNum + 1) r))"
proof -
  from ReadGridFromFile_result [OF assms(1,2)] obtain g0 r l0 n l1 where
    hdr: "readHeader sc verbose (NewReader content) = (Inr (g0, r), l0)" and
    rows: "readRows sc verbose name (nrows g0 + 6) g0 0 6 r = (Inr (g, n), l1)" and
    sub: "set l1 \<subseteq> set lg"
    by blast
  from readHeader_result [OF hdr] have r: "r = drop 6 (NewReader content)"
    and zero: "height g0 = replicate (nat (nrows g0)) (replicate (nat (ncols g0)) (Fin 0))"
    by simp_all
  from readRows_keeps [OF rows] have dims: "ncols g = ncols g0" "nrows g = nrows g0"
    and skip: "\<forall>j < length r. 6 + 1 + int j \<le> nrows g0 + 6 \<longrightarrow> wrong_count (r ! j) (ncols g0) \<longrightarrow>
       height g ! nat (0 + int j) = height g0 ! nat (0 + int j) \<and>
       count_warning (6 + 1 + int j) (r ! j) (ncols g0) \<in> set l1"
    by simp_all
  from assms(4) r have i: "i < length r" and ri: "r ! i = NewReader content ! (6 + i)"
    by simp_all
  from assms(3) dims have "6 + 1 + int i \<le> nrows g0 + 6" by linarith
  with skip i ri assms(5) dims have
    "height g ! i = height g0 ! i" and "count_warning (7 + int i) (r ! i) (ncols g0) \<in> set l1"
    by auto
  moreover from zero assms(3) dims have "height g0 ! i = replicate (nat (ncols g)) (Fin 0)"
    by simp
  moreover have "fst (readRows sc verbose name le g0 row lineNum (line0 # r))
            = fst (readRows sc verbose name le g0 (row + 1) (lineNum + 1) r)"
    if "wrong_count line0 (ncols g0)" "lineNum + 1 \<le> le" for g0 row lineNum line0 r le
    unfolding readRows_skip [OF that] by (simp add: fst_bind_out say_if_def say_def)
  ultimately show ?thesis using sub ri dims by auto
qed


subsection \<open>The example file\<close>

lemma example_4x4_lines:
  "NewReader example_4x4 =
     [''ncols 4\<newline>'', ''nrows 4\<newline>'', ''xllcorner    513000\<newline>'',
      ''yllcorner    152000\<newline>'', ''cellsize     1\<newline>'', ''NODATA_value -9999\<newline>'',
      ''500 500 500 500\<newline>'', ''500 500 500 500\<newline>'',
      ''1000 1000 1000 1000\<newline>'', ''1000 1000 1000 1000\<newline>'']"
  by (simp add: NewReader_def example_4x4_def nl_def)

lemma example_short_row_lines:
  "NewReader example_short_row =
     [''ncols 4\<newline>'', ''nrows 4\<newline>'', ''xllcorner    513000\<newline>'',
      ''yllcorner    152000\<newline>'', ''cellsize     1\<newline>'', ''NODATA_value -9999\<newline>'',
      ''500 500 500\<newline>'', ''500 500 500 500\<newline>'',
      ''1000 1000 1000 1000\<newline>'', ''1000 1000 1000 1000\<newline>'']"
  by (simp add: NewReader_def example_short_row_def nl_def)

lemma fields_ncols: "Split (stripSpaces ''ncols 4\<newline>'') = [''ncols'', ''4'']"
  by code_simp

lemma fields_nrows: "Split (stripSpaces ''nrows 4\<newline>'') = [''nrows'', ''4'']"
  by code_simp

lemma fields_xllcorner:
  "Split (stripSpaces ''xllcorner    513000\<newline>'') = [''xllcorner'', ''513000'']"
  by code_simp

lemma fields_yllcorner:
  "Split (stripSpaces ''yllcorner    152000\<newline>'') = [''yllcorner'', ''152000'']"
  by code_simp

lemma fields_cellsize: "Split (stripSpaces ''cellsize     1\<newline>'') = [''cellsize'', ''1'']"
  by code_simp

lemma fields_nodata:
  "Split (stripSpaces ''NODATA_value -9999\<newline>'') = [''NODATA_value'', ''-9999'']"
  by code_simp

lemma fields_500:
  "Split (stripSpaces ''500 500 500 500\<newline>'') = [''500'', ''500'', ''500'', ''500'']"
  by code_simp

lemma fields_500_short:
  "Split (stripSpaces ''500 500 500\<newline>'') = [''500'', ''500'', ''500'']"
  by code_simp

lemma fields_1000:
  "Split (stripSpaces ''1000 1000 1000 1000\<newline>'') = [''1000'', ''1000'', ''1000'', ''1000'']"
  by code_simp

lemma scan_d_4: "Sscanf_d go_fmt ''4'' = Some 4"
  unfolding go_fmt_def fmt.simps by code_simp

lemma scan_d_nodata: "Sscanf_d go_fmt ''-9999'' = Some (- 9999)"
  unfolding go_fmt_def fmt.simps by code_simp

lemma scan_f_513000: "Sscanf_f go_fmt ''513000'' = Some (Fin 513000)"
  unfolding go_fmt_def fmt.simps by code_simp

lemma scan_f_152000: "Sscanf_f go_fmt ''152000'' = Some (Fin 152000)"
  unfolding go_fmt_def fmt.simps by code_simp

lemma scan_f_1: "Sscanf_f go_fmt ''1'' = Some (Fin 1)"
  unfolding go_fmt_def fmt.simps by code_simp

lemma scan_f_500: "Sscanf_f go_fmt ''500'' = Some (Fin 500)"
  unfolding go_fmt_def fmt.simps by code_simp

lemma scan_f_1000: "Sscanf_f go_fmt ''1000'' = Some (Fin 1000)"
  unfolding go_fmt_def fmt.simps by code_simp

text \<open>
  Outside the example: a line that ends in a no-break space has three tokens, since the
  trimming removes the white space of Unicode; and the scanner of \<open>%f\<close> reads digit
  separators and binary exponents, and rejects a hexadecimal mantissa without exponent.
\<close>

lemma fields_no_break_space:
  "Split (stripSpaces (''1 2 3 '' @ [CHR 0xC2, CHR 0xA0, CHR 0x0A])) = [''1'', ''2'', ''3'']"
  by code_simp

lemma scan_f_separator: "Sscanf_f go_fmt ''1_000'' = Some (Fin 1000)"
  unfolding go_fmt_def fmt.simps by code_simp

lemma scan_f_binary_exponent: "Sscanf_f go_fmt ''1p4'' = Some (Fin 16)"
  unfolding go_fmt_def fmt.simps by code_simp

lemma scan_f_hexadecimal:
  "Sscanf_f go_fmt ''0x10'' = None \<and> Sscanf_f go_fmt ''0x1p-2'' = Some (Fin (1 / 4))"
  unfolding go_fmt_def fmt.simps by code_simp

lemmas example_tokens =
  fields_ncols fields_nrows fields_xllcorner fields_yllcorner fields_cellsize fields_nodata
  fields_500 fields_500_short fields_1000
  scan_d_4 scan_d_nodata scan_f_513000 scan_f_152000 scan_f_1 scan_f_500 scan_f_1000

lemma replicate_4: "replicate 4 x = [x, x, x, x]"
  by (simp add: eval_nat_numeral)

lemma example_header:
  "readHeader go_fmt False
     (''ncols 4\<newline>'' # ''nrows 4\<newline>'' # ''xllcorner    513000\<newline>'' #
      ''yllcorner    152000\<newline>'' # ''cellsize     1\<newline>'' # ''NODATA_value -9999\<newline>'' # rows) =
   (Inr ((zero_Grid 4 4)\<lparr>xllcorner := Fin 513000, yllcorner := Fin 152000, cellsize := Fin 1,
           noDataValue := - 9999\<rparr>, rows),
    [NoDataValueIs (- 9999)])"
  by (simp add: readHeader_def readIntFromHeader_def readFloat32FromHeader_def
        ReadString_def example_tokens say_if_def say_def ret_def make_height_def makeslice_ok_def
        zero_Grid_def Let_def)

lemma example_4x4_grid:
  "ReadGridFromFile go_fmt [''TT'' \<mapsto> example_4x4] ''TT'' False =
   (Inr ((zero_Grid 4 4)\<lparr>xllcorner := Fin 513000, yllcorner := Fin 152000, cellsize := Fin 1,
           noDataValue := - 9999, maxHeightSet := True, maxHeight := Fin 1000,
           minHeightSet := True, minHeight := Fin 500,
           height := [[Fin 500, Fin 500, Fin 500, Fin 500],
                      [Fin 500, Fin 500, Fin 500, Fin 500],
                      [Fin 1000, Fin 1000, Fin 1000, Fin 1000],
                      [Fin 1000, Fin 1000, Fin 1000, Fin 1000]]\<rparr>),
    [NoDataValueIs (- 9999), ReadingDataLines 4])"
  by (simp add: ReadGridFromFile_def example_4x4_lines example_header say_if_def say_def ret_def
        zero_Grid_def replicate_4 Let_def example_tokens SetHeight_def store2_def f32_gt_def
        numeral_2_eq_2 numeral_3_eq_3)

lemma example_short_row_grid:
  "ReadGridFromFile go_fmt [''TT'' \<mapsto> example_short_row] ''TT'' False =
   (Inr ((zero_Grid 4 4)\<lparr>xllcorner := Fin 513000, yllcorner := Fin 152000, cellsize := Fin 1,
           noDataValue := - 9999, maxHeightSet := True, maxHeight := Fin 1000,
           minHeightSet := True, minHeight := Fin 500,
           height := [[Fin 0, Fin 0, Fin 0, Fin 0],
                      [Fin 500, Fin 500, Fin 500, Fin 500],
                      [Fin 1000, Fin 1000, Fin 1000, Fin 1000],
                      [Fin 1000, Fin 1000, Fin 1000, Fin 1000]]\<rparr>),
    [NoDataValueIs (- 9999), ReadingDataLines 4, TooFewColumns 7 3 4])"
  by (simp add: ReadGridFromFile_def example_short_row_lines example_header say_if_def say_def
        ret_def zero_Grid_def replicate_4 Let_def example_tokens SetHeight_def store2_def
        f32_gt_def numeral_2_eq_2 numeral_3_eq_3)

text \<open>
  Claim C8. Reading the example file of four columns and four rows (two rows of 500, then
  two rows of 1000, every line ended by a newline) succeeds, and the grid has the least
  height 500, the greatest height 1000, \<open>Height(0,0) = 500\<close> and \<open>Height(3,3) = 1000\<close>.
\<close>

theorem example_4x4_parses:
  "\<exists>g l. ReadGridFromFile go_fmt [''TT'' \<mapsto> example_4x4] ''TT'' False = (Inr g, l) \<and>
     MinHeight g = Fin 500 \<and> MaxHeight g = Fin 1000 \<and>
     Height g 0 0 = Inr (Fin 500) \<and> Height g 3 3 = Inr (Fin 1000)"
  unfolding example_4x4_grid
  by (simp add: MinHeight_def MaxHeight_def Height_def index2_def zero_Grid_def)

theorem wrong_count_row_is_skipped_witness:
  "\<exists>g. ReadGridFromFile go_fmt [''TT'' \<mapsto> example_short_row] ''TT'' False
        = (Inr g, [NoDataValueIs (- 9999), ReadingDataLines 4, TooFewColumns 7 3 4]) \<and>
       ncols g = 4 \<and> nrows g = 4 \<and>
       wrong_count (NewReader example_short_row ! 6) 4 \<and>
       height g ! 0 = [Fin 0, Fin 0, Fin 0, Fin 0] \<and>
       count_warning 7 (NewReader example_short_row ! 6) 4 = TooFewColumns 7 3 4"
proof -
  let ?fs = "[''TT'' \<mapsto> example_short_row]"
  let ?g = "(zero_Grid 4 4)\<lparr>xllcorner := Fin 513000, yllcorner := Fin 152000, cellsize := Fin 1,
           noDataValue := - 9999, maxHeightSet := True, maxHeight := Fin 1000,
           minHeightSet := True, minHeight := Fin 500,
           height := [[Fin 0, Fin 0, Fin 0, Fin 0],
                      [Fin 500, Fin 500, Fin 500, Fin 500],
                      [Fin 1000, Fin 1000, Fin 1000, Fin 1000],
                      [Fin 1000, Fin 1000, Fin 1000, Fin 1000]]\<rparr>"
  have inp: "?fs ''TT'' = Some example_short_row" by simp
  have dims: "ncols ?g = 4" "nrows ?g = 4" by (simp_all add: zero_Grid_def)
  have i: "0 < nat (nrows ?g)" by (simp add: zero_Grid_def)
  have len: "6 + 0 < length (NewReader example_short_row)"
    by (simp add: example_short_row_lines)
  have wrong: "wrong_count (NewReader example_short_row ! (6 + 0)) (ncols ?g)"
    by (simp add: example_short_row_lines wrong_count_def fields_500_short zero_Grid_def)
  have warn: "count_warning 7 (NewReader example_short_row ! 6) 4 = TooFewColumns 7 3 4"
    by (simp add: example_short_row_lines count_warning_def fields_500_short)
  from wrong_count_row_is_skipped [OF inp example_short_row_grid i len wrong]
  have "height ?g ! 0 = replicate (nat (ncols ?g)) (Fin 0)" by blast
  with dims wrong warn example_short_row_grid show ?thesis
    by (simp add: replicate_4)
qed

subsection \<open>The drawing loops\<close>


lemma visits_append: "visits (a @ b) = visits a @ visits b"
  by (induction a rule: visits.induct) simp_all

lemma Height_shaped:
  assumes "shaped g" and "0 \<le> row" and "row < nrows g" and "0 \<le> col" and "col < ncols g"
  shows "Height g row col = Inr (height g ! nat row ! nat col)"
proof -
  from assms(1) have m: "map length (height g) = replicate (nat (nrows g)) (nat (ncols g))"
    by (simp add: shaped_def)
  then have "length (map length (height g)) = nat (nrows g)" by simp
  then have len: "length (height g) = nat (nrows g)" by simp
  with assms(2,3) have r: "nat row < length (height g)" by simp
  then have "length (height g ! nat row) = map length (height g) ! nat row" by simp
  also from m r len have "\<dots> = nat (ncols g)" by simp
  finally have "length (height g ! nat row) = nat (ncols g)" .
  with assms r len show ?thesis by (simp add: Height_def index2_def)
qed

lemma upto_first: "i \<le> j \<Longrightarrow> [i..j] = i # [i + 1..j]"
  by (simp add: upto_rec1)

lemma renderCols_spec:
  assumes "shaped grid" and "0 \<le> row" and "row < nrows grid"
  shows "0 \<le> col \<Longrightarrow> n = nat (ncols grid - col) \<Longrightarrow>
    \<exists>img' tr' l. renderCols verbose f c grid row col (img, tr) = (Inr (img', tr'), l) \<and>
       bounds img' = bounds img \<and>
       (verbose \<longrightarrow> visits l = map (\<lambda>x. (row, x)) [col..ncols grid - 1]) \<and>
       (\<forall>x y. At img' x y =
          (if y = row \<and> col \<le> x \<and> x < ncols grid \<and> In (x, y) (bounds img)
           then cell_colour f c grid row x else At img x y))"
proof (induction n arbitrary: col img tr)
  case 0
  then have "\<not> col < Ncols grid" by (simp add: Ncols_def)
  then have "renderCols verbose f c grid row col (img, tr) = (Inr (img, tr), [])"
    by (simp add: renderCols.simps ret_def)
  moreover from 0 have "[col..ncols grid - 1] = []" by simp
  moreover from 0 have "\<not> (col \<le> x \<and> x < ncols grid)" for x by simp
  ultimately show ?case by auto
next
  case (Suc n)
  then have lt: "col < ncols grid" and n: "n = nat (ncols grid - (col + 1))" and c1: "0 \<le> col + 1"
    by simp_all
  let ?s = "shade_value f c (height grid ! nat row ! nat col)"
  let ?img1 = "Set img col row (Gray ?s)"
  from shade_colour [of verbose tr f c "height grid ! nat row ! nat col"] obtain tr1 where
    sh: "shade verbose tr f c (height grid ! nat row ! nat col)
         = (Inr (Gray ?s, tr1), if verbose then [Verbose (V_shade ?s)] else [])"
    by blast
  from Suc.IH [OF c1 n, of ?img1 tr1] obtain img' tr' l where
    rest: "renderCols verbose f c grid row (col + 1) (?img1, tr1) = (Inr (img', tr'), l)" and
    b: "bounds img' = bounds ?img1" and
    v: "verbose \<longrightarrow> visits l = map (\<lambda>x. (row, x)) [col + 1..ncols grid - 1]" and
    p: "\<forall>x y. At img' x y =
          (if y = row \<and> col + 1 \<le> x \<and> x < ncols grid \<and> In (x, y) (bounds ?img1)
           then cell_colour f c grid row x else At ?img1 x y)"
    by blast
  have b1: "bounds ?img1 = bounds img" by (simp add: Set_def)
  have p1: "At ?img1 x y = (if x = col \<and> y = row \<and> In (x, y) (bounds img)
                            then cell_colour f c grid row col else At img x y)" for x y
    by (auto simp: Set_def At_def cell_colour_def)
  from lt Suc.prems(1) assms
  have "renderCols verbose f c grid row col (img, tr) =
        (Inr (img', tr'),
         (if verbose then [Verbose (V_shade ?s)] else []) @
         (if verbose then [Verbose (V_colouring row col (Gray ?s))] else []) @ l)"
    by (subst renderCols.simps)
       (simp add: Ncols_def Height_shaped sh rest say_if_def)
  moreover from lt have "[col..ncols grid - 1] = col # [col + 1..ncols grid - 1]"
    by (simp add: upto_first)
  moreover have "At img' x y =
          (if y = row \<and> col \<le> x \<and> x < ncols grid \<and> In (x, y) (bounds img)
           then cell_colour f c grid row x else At img x y)" for x y
  proof -
    from p b1 have A: "At img' x y =
          (if y = row \<and> col + 1 \<le> x \<and> x < ncols grid \<and> In (x, y) (bounds img)
           then cell_colour f c grid row x else At ?img1 x y)"
      by simp
    show ?thesis
    proof (cases "x = col")
      case True
      have "\<not> col + 1 \<le> col" by simp
      with A p1 [of col y] lt show ?thesis unfolding True by auto
    next
      case False
      then have e: "(col \<le> x) = (col + 1 \<le> x)" by linarith
      from A p1 [of x y] False show ?thesis unfolding e by auto
    qed
  qed
  ultimately show ?case using b b1 v by (auto simp: visits_append)
qed


lemma upto_last: "i \<le> j \<Longrightarrow> [i..j] = [i..j - 1] @ [j]"
  by (simp add: upto_rec2)

lemma renderRows_spec:
  assumes "shaped grid"
  shows "row < nrows grid \<Longrightarrow> - 1 \<le> row \<Longrightarrow> n = nat (row + 1) \<Longrightarrow>
    \<exists>img' tr' l. renderRows verbose f c grid row (img, tr) = (Inr (img', tr'), l) \<and>
       bounds img' = bounds img \<and>
       (verbose \<longrightarrow> visits l = concat (map (\<lambda>y. map (\<lambda>x. (y, x)) [0..ncols grid - 1]) (rev [0..row]))) \<and>
       (\<forall>x y. At img' x y =
          (if 0 \<le> y \<and> y \<le> row \<and> 0 \<le> x \<and> x < ncols grid \<and> In (x, y) (bounds img)
           then cell_colour f c grid y x else At img x y))"
proof (induction n arbitrary: row img tr)
  case 0
  then have neg: "\<not> 0 \<le> row" by simp
  then have "renderRows verbose f c grid row (img, tr) = (Inr (img, tr), [])"
    by (simp add: renderRows.simps ret_def)
  moreover from neg have "[0..row] = []" by simp
  moreover from neg have "\<not> (0 \<le> y \<and> y \<le> row)" for y by simp
  ultimately show ?case by auto
next
  case (Suc n)
  then have row: "0 \<le> row" and n: "n = nat (row - 1 + 1)" and r1: "row - 1 < nrows grid"
    and r2: "- 1 \<le> row - 1"
    by simp_all
  from renderCols_spec [OF assms row Suc.prems(1), of 0 _ verbose f c img tr] obtain img1 tr1 l1 where
    cols: "renderCols verbose f c grid row 0 (img, tr) = (Inr (img1, tr1), l1)" and
    b1: "bounds img1 = bounds img" and
    v1: "verbose \<longrightarrow> visits l1 = map (\<lambda>x. (row, x)) [0..ncols grid - 1]" and
    p1: "\<forall>x y. At img1 x y =
          (if y = row \<and> 0 \<le> x \<and> x < ncols grid \<and> In (x, y) (bounds img)
           then cell_colour f c grid row x else At img x y)"
    by blast
  from Suc.IH [OF r1 r2 n, of img1 tr1] obtain img' tr' l where
    rest: "renderRows verbose f c grid (row - 1) (img1, tr1) = (Inr (img', tr'), l)" and
    b: "bounds img' = bounds img1" and
    v: "verbose \<longrightarrow> visits l =
          concat (map (\<lambda>y. map (\<lambda>x. (y, x)) [0..ncols grid - 1]) (rev [0..row - 1]))" and
    p: "\<forall>x y. At img' x y =
          (if 0 \<le> y \<and> y \<le> row - 1 \<and> 0 \<le> x \<and> x < ncols grid \<and> In (x, y) (bounds img1)
           then cell_colour f c grid y x else At img1 x y)"
    by blast
  from row have "renderRows verbose f c grid row (img, tr) = (Inr (img', tr'), l1 @ l)"
    by (subst renderRows.simps) (simp add: cols rest)
  moreover from row have "rev [0..row] = row # rev [0..row - 1]"
    by (simp add: upto_last)
  moreover have "At img' x y =
          (if 0 \<le> y \<and> y \<le> row \<and> 0 \<le> x \<and> x < ncols grid \<and> In (x, y) (bounds img)
           then cell_colour f c grid y x else At img x y)" for x y
    using p [rule_format, of x y] p1 [rule_format, of x y] b1 row by auto
  ultimately show ?case using b b1 v v1 by (auto simp: visits_append)
qed

lemma At_NewRGBA: "At (NewRGBA r) x y = RGBA 0 0 0 0"
  by (simp add: At_def NewRGBA_def)

lemma render_spec:
  assumes "shaped grid"
  shows "\<exists>img tr' l. render verbose f c grid tr = (Inr (img, tr'), l) \<and>
       bounds img = Rect 0 0 (Nrows grid) (Ncols grid) \<and>
       (verbose \<longrightarrow> visits l =
          concat (map (\<lambda>y. map (\<lambda>x. (y, x)) [0..ncols grid - 1]) (rev [0..nrows grid - 1]))) \<and>
       (\<forall>x y. At img x y =
          (if 0 \<le> y \<and> y < nrows grid \<and> 0 \<le> x \<and> x < ncols grid \<and> In (x, y) (bounds img)
           then cell_colour f c grid y x else RGBA 0 0 0 0))"
proof -
  from assms have "- 1 \<le> nrows grid - 1" by (simp add: shaped_def)
  from renderRows_spec [OF assms _ this refl, of verbose f c
         "NewRGBA (Rect 0 0 (Nrows grid) (Ncols grid))" tr]
  obtain img' tr' l where
    r: "renderRows verbose f c grid (nrows grid - 1)
          (NewRGBA (Rect 0 0 (Nrows grid) (Ncols grid)), tr) = (Inr (img', tr'), l)" and
    b: "bounds img' = bounds (NewRGBA (Rect 0 0 (Nrows grid) (Ncols grid)))" and
    v: "verbose \<longrightarrow> visits l =
          concat (map (\<lambda>y. map (\<lambda>x. (y, x)) [0..ncols grid - 1]) (rev [0..nrows grid - 1]))" and
    p: "\<forall>x y. At img' x y =
          (if 0 \<le> y \<and> y \<le> nrows grid - 1 \<and> 0 \<le> x \<and> x < ncols grid \<and>
              In (x, y) (bounds (NewRGBA (Rect 0 0 (Nrows grid) (Ncols grid))))
           then cell_colour f c grid y x
           else At (NewRGBA (Rect 0 0 (Nrows grid) (Ncols grid))) x y)"
    by auto
  have "render verbose f c grid tr = (Inr (img', tr'), l)"
    using r by (simp add: render_def Let_def Nrows_def)
  moreover from b have b': "bounds img' = Rect 0 0 (Nrows grid) (Ncols grid)"
    by (simp add: NewRGBA_def)
  moreover have "At img' x y =
          (if 0 \<le> y \<and> y < nrows grid \<and> 0 \<le> x \<and> x < ncols grid \<and> In (x, y) (bounds img')
           then cell_colour f c grid y x else RGBA 0 0 0 0)" for x y
    using p [rule_format, of x y] b by (auto simp: At_NewRGBA)
  ultimately show ?thesis using v by blast
qed


lemma map_length_update:
  "i < length hs \<Longrightarrow> map length (hs[i := (hs ! i)[j := v]]) = map length hs"
  by (simp add: map_update list_update_same_conv)

lemma SetHeight_shape:
  assumes "SetHeight g row col h = (Inr g', l)"
  shows "ncols g' = ncols g \<and> nrows g' = nrows g \<and> map length (height g') = map length (height g)"
  using assms
  by (auto simp: SetHeight_def store2_def Let_def map_length_update split: if_splits option.splits)

lemma readCols_shape:
  "readCols sc verbose g row col numbers = (Inr g', l) \<Longrightarrow>
   ncols g' = ncols g \<and> nrows g' = nrows g \<and> map length (height g') = map length (height g)"
proof (induction numbers arbitrary: g col l)
  case Nil
  then show ?case by simp
next
  case (Cons number numbers)
  from Cons.prems(1) obtain f g1 l1 l2 where
    s: "SetHeight g row col f = (Inr g1, l1)" and
    rest: "readCols sc verbose g1 row (col + 1) numbers = (Inr g', l2)"
    by (auto simp: bind_out_eq_Inr split: option.splits if_splits sum.splits)
  from SetHeight_shape [OF s] Cons.IH [OF rest] show ?case by simp
qed

lemma readRows_shape:
  "readRows sc verbose filename le g row lineNum r = (Inr (g', n), lg) \<Longrightarrow>
   ncols g' = ncols g \<and> nrows g' = nrows g \<and> map length (height g') = map length (height g)"
proof (induction r arbitrary: g row lineNum lg)
  case Nil
  then show ?case by simp
next
  case (Cons line0 r)
  show ?case
  proof (cases "lineNum + 1 > le")
    case True
    with Cons.prems show ?thesis by (auto simp: bind_out_eq_Inr)
  next
    case inside: False
    show ?thesis
    proof (cases "wrong_count line0 (ncols g)")
      case True
      from inside have le': "lineNum + 1 \<le> le" by simp
      from Cons.prems [unfolded readRows_skip [OF True le']] obtain lg2 where
        "readRows sc verbose filename le g (row + 1) (lineNum + 1) r = (Inr (g', n), lg2)"
        by (auto simp: bind_out_eq_Inr simp del: readRows.simps)
      from Cons.IH [OF this] show ?thesis .
    next
      case False
      with Cons.prems inside obtain g1 l1 lg2 where
        cols: "readCols sc verbose g row 0 (Split (stripSpaces line0)) = (Inr g1, l1)"
        and rest: "readRows sc verbose filename le g1 (row + 1) (lineNum + 1) r = (Inr (g', n), lg2)"
        by (auto simp: bind_out_eq_Inr wrong_count_def Let_def split: if_splits)
      from readCols_shape [OF cols] Cons.IH [OF rest] show ?thesis by simp
    qed
  qed
qed

lemma readHeader_shaped:
  assumes "readHeader sc verbose r0 = (Inr (g, r), l)"
  shows "shaped g"
proof -
  from assms obtain nc nr xll yll cs nd hs l3 where
    mk: "make_height nr nc = (Inr hs, l3)" and
    g: "g = (zero_Grid nc nr)\<lparr>xllcorner := xll, yllcorner := yll, cellsize := cs,
              noDataValue := nd, height := hs\<rparr>"
    unfolding readHeader_def
    by (auto simp: bind_out_eq_Inr split: prod.splits)
  from mk have "0 \<le> nr" and "0 < nr \<Longrightarrow> 0 \<le> nc"
    and "hs = replicate (nat nr) (replicate (nat nc) (Fin 0))"
    by (auto simp: make_height_def makeslice_ok_def split: if_splits)
  with g show ?thesis by (simp add: shaped_def zero_Grid_def)
qed

lemma ReadGridFromFile_shaped:
  assumes "ReadGridFromFile sc fs name verbose = (Inr g, lg)"
  shows "shaped g"
proof -
  from assms obtain content where "fs name = Some content"
    unfolding ReadGridFromFile_def
    by (cases "fs name") (auto simp: bind_out_eq_Inr)
  from ReadGridFromFile_result [OF this assms] obtain g0 r l0 n l1 where
    hdr: "readHeader sc verbose (NewReader content) = (Inr (g0, r), l0)" and
    rows: "readRows sc verbose name (nrows g0 + 6) g0 0 6 r = (Inr (g, n), l1)"
    by blast
  from readHeader_shaped [OF hdr] readRows_shape [OF rows] show ?thesis
    by (simp add: shaped_def)
qed

text \<open>
  Claim C5, as amended. For every grid that \<open>ReadGridFromFile\<close> returned, the drawing
  loops end without a panic; they come to the rows from the last index down to the first
  and, in each row, to the columns from left to right; and the image holds the shade of
  the cell at \<open>row\<close>, \<open>col\<close> at the point \<open>(col, row)\<close>, wherever that point lies within
  the bounds of the image. The row is not inverted: the first row of the grid is the top
  line of the image.
\<close>

theorem render_draws_cell_at_col_row:
  assumes "ReadGridFromFile sc fs name v = (Inr grid, lg)"
  shows "\<exists>img tr' l. render verbose f c grid tr = (Inr (img, tr'), l) \<and>
       (verbose \<longrightarrow> visits l =
          concat (map (\<lambda>row. map (\<lambda>col. (row, col)) [0..ncols grid - 1]) (rev [0..nrows grid - 1]))) \<and>
       (\<forall>row col. 0 \<le> row \<and> row < nrows grid \<and> 0 \<le> col \<and> col < ncols grid \<and>
            In (col, row) (bounds img) \<longrightarrow>
          At img col row = cell_colour f c grid row col)"
proof -
  from render_spec [OF ReadGridFromFile_shaped [OF assms], of verbose f c tr]
  obtain img tr' l where
    "render verbose f c grid tr = (Inr (img, tr'), l)" and
    "verbose \<longrightarrow> visits l =
          concat (map (\<lambda>y. map (\<lambda>x. (y, x)) [0..ncols grid - 1]) (rev [0..nrows grid - 1]))" and
    p: "\<forall>x y. At img x y =
          (if 0 \<le> y \<and> y < nrows grid \<and> 0 \<le> x \<and> x < ncols grid \<and> In (x, y) (bounds img)
           then cell_colour f c grid y x else RGBA 0 0 0 0)"
    by blast
  then show ?thesis by auto
qed

subsection \<open>Drawing the example grids\<close>

lemma example_4x4_reads: 
  "ReadGridFromFile go_fmt [''TT'' \<mapsto> example_4x4] ''TT'' False =
   (Inr example_grid, [NoDataValueIs (- 9999), ReadingDataLines 4])"
  unfolding example_grid_def by (rule example_4x4_grid)

lemma render_bounds:
  assumes "shaped grid" and "render verbose f c grid tr = (Inr (img, tr'), l)"
  shows "bounds img = Rect 0 0 (Nrows grid) (Ncols grid)"
  using render_spec [OF assms(1), of verbose f c tr] assms(2) by auto

lemma shade_value_0_2000_500: "shade_value (Fin 0) (Fin 2000) (Fin 500) = 191"
  by code_simp

lemma shade_value_0_2000_1000: "shade_value (Fin 0) (Fin 2000) (Fin 1000) = 127"
  by code_simp

lemma example_grid_shaped: "shaped example_grid"
  using ReadGridFromFile_shaped [OF example_4x4_reads] .

lemma example_grid_dims: "nrows example_grid = 4" "ncols example_grid = 4"
  "Nrows example_grid = 4" "Ncols example_grid = 4"
  by (simp_all add: example_grid_def zero_Grid_def Nrows_def Ncols_def)

lemma example_grid_colours:
  "cell_colour (Fin 0) (Fin 2000) example_grid 0 0 = RGBA 191 191 191 255"
  "cell_colour (Fin 0) (Fin 2000) example_grid 3 0 = RGBA 127 127 127 255"
  by (simp_all add: cell_colour_def example_grid_def to_RGBA_def
        shade_value_0_2000_500 shade_value_0_2000_1000 numeral_3_eq_3)

lemma example_render:
  "\<exists>img tr' l. render verbose (Fin 0) (Fin 2000) example_grid tr = (Inr (img, tr'), l) \<and>
     At img 0 0 = RGBA 191 191 191 255 \<and> At img 0 3 = RGBA 127 127 127 255"
proof -
  from render_spec [OF example_grid_shaped, of verbose "Fin 0" "Fin 2000" tr]
  obtain img tr' l where
    r: "render verbose (Fin 0) (Fin 2000) example_grid tr = (Inr (img, tr'), l)" and
    b: "bounds img = Rect 0 0 (Nrows example_grid) (Ncols example_grid)" and
    p: "\<forall>x y. At img x y =
          (if 0 \<le> y \<and> y < nrows example_grid \<and> 0 \<le> x \<and> x < ncols example_grid \<and>
              In (x, y) (bounds img)
           then cell_colour (Fin 0) (Fin 2000) example_grid y x else RGBA 0 0 0 0)"
    by blast
  from b have "In (0, 0) (bounds img)" "In (0, 3) (bounds img)"
    by (simp_all add: example_grid_dims Rect_def In_def)
  with p [rule_format, of 0 0] p [rule_format, of 0 3] r show ?thesis
    by (auto simp: example_grid_dims example_grid_colours)
qed

text \<open>
  Claim C5 as stated fails: the last row of the grid is not drawn at the top. For the
  example grid of four rows, drawn with floor 0 and ceiling 2000, the point \<open>(0, 0)\<close>
  holds the shade of the cell \<open>(0, 0)\<close> of the first row, which differs from the shade of
  the cell \<open>(3, 0)\<close> of the last row; that one is at \<open>(0, 3)\<close>, on the bottom line.
\<close>

theorem last_row_is_drawn_at_the_bottom:
  "\<exists>img tr' l.
     ReadGridFromFile go_fmt [''TT'' \<mapsto> example_4x4] ''TT'' False =
       (Inr example_grid, [NoDataValueIs (- 9999), ReadingDataLines 4]) \<and>
     render False (Fin 0) (Fin 2000) example_grid tracker0 = (Inr (img, tr'), l) \<and>
     nrows example_grid = 4 \<and>
     At img 0 0 \<noteq> cell_colour (Fin 0) (Fin 2000) example_grid 3 0 \<and>
     At img 0 0 = cell_colour (Fin 0) (Fin 2000) example_grid 0 0 \<and>
     At img 0 3 = cell_colour (Fin 0) (Fin 2000) example_grid 3 0"
  using example_render [of False tracker0] example_4x4_reads
  by (auto simp: example_grid_dims example_grid_colours)

theorem render_draws_cell_at_col_row_witness:
  "\<exists>img tr' l. render True (Fin 0) (Fin 2000) example_grid tracker0 = (Inr (img, tr'), l) \<and>
     visits l = [(3, 0), (3, 1), (3, 2), (3, 3), (2, 0), (2, 1), (2, 2), (2, 3),
                 (1, 0), (1, 1), (1, 2), (1, 3), (0, 0), (0, 1), (0, 2), (0, 3)] \<and>
     At img 0 0 = RGBA 191 191 191 255 \<and> At img 0 3 = RGBA 127 127 127 255"
proof -
  from render_draws_cell_at_col_row [OF example_4x4_reads, of True "Fin 0" "Fin 2000" tracker0]
  obtain img tr' l where
    r: "render True (Fin 0) (Fin 2000) example_grid tracker0 = (Inr (img, tr'), l)" and
    v: "visits l = concat (map (\<lambda>row. map (\<lambda>col. (row, col)) [0..ncols example_grid - 1])
                      (rev [0..nrows example_grid - 1]))" and
    p: "\<forall>row col. 0 \<le> row \<and> row < nrows example_grid \<and> 0 \<le> col \<and> col < ncols example_grid \<and>
            In (col, row) (bounds img) \<longrightarrow>
          At img col row = cell_colour (Fin 0) (Fin 2000) example_grid row col"
    by auto
  from render_bounds [OF example_grid_shaped r]
  have "In (0, 0) (bounds img)" "In (0, 3) (bounds img)"
    by (simp_all add: example_grid_dims Rect_def In_def)
  with p [rule_format, of 0 0] p [rule_format, of 3 0]
  have "At img 0 0 = RGBA 191 191 191 255" "At img 0 3 = RGBA 127 127 127 255"
    by (simp_all add: example_grid_dims example_grid_colours)
  moreover have "[0..(3::int)] = [0, 1, 2, 3]" by (simp add: upto_rec1)
  with v have "visits l = [(3, 0), (3, 1), (3, 2), (3, 3), (2, 0), (2, 1), (2, 2), (2, 3),
                 (1, 0), (1, 1), (1, 2), (1, 3), (0, 0), (0, 1), (0, 2), (0, 3)]"
    by (simp add: example_grid_dims)
  ultimately show ?thesis using r by blast
qed

lemma example_wide_lines:
  "NewReader example_wide =
     [''ncols 4\<newline>'', ''nrows 1\<newline>'', ''xllcorner    513000\<newline>'',
      ''yllcorner    152000\<newline>'', ''cellsize     1\<newline>'', ''NODATA_value -9999\<newline>'',
      ''500 500 500 500\<newline>'']"
  by (simp add: NewReader_def example_wide_def nl_def)

lemma fields_nrows_1: "Split (stripSpaces ''nrows 1\<newline>'') = [''nrows'', ''1'']"
  by code_simp

lemma scan_d_1: "Sscanf_d go_fmt ''1'' = Some 1"
  unfolding go_fmt_def fmt.simps by code_simp

lemma example_wide_reads:
  "ReadGridFromFile go_fmt [''TT'' \<mapsto> example_wide] ''TT'' False =
   (Inr wide_grid, [NoDataValueIs (- 9999), ReadingDataLines 1])"
  by (simp add: ReadGridFromFile_def example_wide_lines readHeader_def readIntFromHeader_def
        readFloat32FromHeader_def ReadString_def make_height_def makeslice_ok_def
        say_if_def say_def ret_def wide_grid_def
        zero_Grid_def replicate_4 Let_def example_tokens fields_nrows_1 scan_d_1
        SetHeight_def store2_def f32_gt_def numeral_2_eq_2 numeral_3_eq_3)

lemma wide_grid_dims: "nrows wide_grid = 1" "ncols wide_grid = 4"
  "Nrows wide_grid = 1" "Ncols wide_grid = 4"
  by (simp_all add: wide_grid_def zero_Grid_def Nrows_def Ncols_def)

text \<open>
  Claim C2. The image is to be as wide as the grid has columns and as high as it has rows,
  with one pixel for each cell. \<open>main\<close> passes \<open>Nrows\<close> as the width and \<open>Ncols\<close> as the
  height to \<open>image.Rect\<close>, while \<open>img.Set(col, row, c)\<close> takes the column as x. For the
  file of one row of four columns the image is 1 wide and 4 high, and the cell in column
  3 has no pixel: the point \<open>(3, 0)\<close> is outside the image.
\<close>

theorem image_of_wide_grid_is_transposed:
  "\<exists>img tr' l.
     ReadGridFromFile go_fmt [''TT'' \<mapsto> example_wide] ''TT'' False =
       (Inr wide_grid, [NoDataValueIs (- 9999), ReadingDataLines 1]) \<and>
     Ncols wide_grid = 4 \<and> Nrows wide_grid = 1 \<and>
     render verbose f c wide_grid tr = (Inr (img, tr'), l) \<and>
     Dx (bounds img) = 1 \<and> Dy (bounds img) = 4 \<and>
     At img 3 0 = RGBA 0 0 0 0"
proof -
  from render_spec [OF ReadGridFromFile_shaped [OF example_wide_reads], of verbose f c tr]
  obtain img tr' l where
    r: "render verbose f c wide_grid tr = (Inr (img, tr'), l)" and
    b: "bounds img = Rect 0 0 (Nrows wide_grid) (Ncols wide_grid)" and
    p: "\<forall>x y. At img x y =
          (if 0 \<le> y \<and> y < nrows wide_grid \<and> 0 \<le> x \<and> x < ncols wide_grid \<and>
              In (x, y) (bounds img)
           then cell_colour f c wide_grid y x else RGBA 0 0 0 0)"
    by blast
  from b have d: "Dx (bounds img) = 1" "Dy (bounds img) = 4" and "\<not> In (3, 0) (bounds img)"
    by (simp_all add: wide_grid_dims Rect_def Dx_def Dy_def In_def)
  with p [rule_format, of 3 0] have "At img 3 0 = RGBA 0 0 0 0" by simp
  with r d example_wide_reads show ?thesis by (auto simp: wide_grid_dims)
qed

subsection \<open>Runs of main that fail\<close>

lemma fields_ncols_x: "Split (stripSpaces ''ncols x\<newline>'') = [''ncols'', ''x'']"
  by code_simp

lemma scan_d_x: "Sscanf_d go_fmt ''x'' = None"
  unfolding go_fmt_def fmt.simps by code_simp

lemma missing_input_fails:
  "ReadGridFromFile go_fmt [''out.png'' \<mapsto> []] ''in'' False = (Inl OpenError, [OpenFailed ''in''])"
  by (simp add: ReadGridFromFile_def say_if_def say_def fail_def)

lemma bad_input_fails:
  "ReadGridFromFile go_fmt [''in'' \<mapsto> ''ncols x\<newline>'', ''out.png'' \<mapsto> []] ''in'' False
   = (Inl ScanError, [])"
  by (simp add: ReadGridFromFile_def readHeader_def readIntFromHeader_def ReadString_def
        NewReader_def nl_def say_if_def fail_def Let_def fields_ncols_x scan_d_x)

text \<open>
  Claim C3, as amended. In every run in which the output file can be created and opening
  or reading the input then fails, \<open>main\<close> ends with that failure and encodes no image;
  the output file exists and is empty, since \<open>os.Create\<close> ran before the input was
  opened, and no other file has changed.
\<close>

theorem failed_read_leaves_empty_output:
  assumes "creatable w (output_flag a)"
    and "fst (ReadGridFromFile (scanners lb) ((files w)(output_flag a \<mapsto> []))
               (filename_flag a) (verbose_flag a)) = Inl e"
  shows "\<exists>l. main lb w a = (w\<lparr>files := (files w)(output_flag a \<mapsto> [])\<rparr>, Inl e, l)"
proof -
  obtain r l0 where rd: "ReadGridFromFile (scanners lb) ((files w)(output_flag a \<mapsto> []))
               (filename_flag a) (verbose_flag a) = (r, l0)"
    by (cases "ReadGridFromFile (scanners lb) ((files w)(output_flag a \<mapsto> []))
               (filename_flag a) (verbose_flag a)")
  with assms(2) have "r = Inl e" by simp
  with rd assms(1) show ?thesis
    by (cases e) (auto simp: main_def os_Create_def split: panic.splits)
qed

theorem failed_read_leaves_empty_output_witness:
  "\<forall>enc. \<exists>l. main \<lparr>scanners = go_fmt, png_Encode = enc\<rparr> no_input_world run_args
     = (no_input_world\<lparr>files := [''out.png'' \<mapsto> []]\<rparr>, Inl OpenError, l)"
proof
  fix enc
  have "creatable no_input_world (output_flag run_args)"
    by (simp add: no_input_world_def)
  moreover have "fst (ReadGridFromFile (scanners \<lparr>scanners = go_fmt, png_Encode = enc\<rparr>)
      ((files no_input_world)(output_flag run_args \<mapsto> []))
      (filename_flag run_args) (verbose_flag run_args)) = Inl OpenError"
    by (simp add: no_input_world_def run_args_def missing_input_fails)
  ultimately show "\<exists>l. main \<lparr>scanners = go_fmt, png_Encode = enc\<rparr> no_input_world run_args
     = (no_input_world\<lparr>files := [''out.png'' \<mapsto> []]\<rparr>, Inl OpenError, l)"
    using failed_read_leaves_empty_output [of no_input_world run_args "\<lparr>scanners = go_fmt, png_Encode = enc\<rparr>" OpenError]
    by (simp add: no_input_world_def run_args_def)
qed

text \<open>
  Claim C3 as stated fails: after a failed run an output file exists. Where the input
  file is missing, \<open>out.png\<close> did not exist before the run and is an empty file after it;
  where the header of the input does not parse, the older \<open>out.png\<close> has lost its content.
\<close>

theorem failed_run_creates_output_file:
  "(\<forall>enc. files no_input_world ''out.png'' = None \<and>
      fst (snd (main \<lparr>scanners = go_fmt, png_Encode = enc\<rparr> no_input_world run_args))
        = Inl OpenError \<and>
      files (fst (main \<lparr>scanners = go_fmt, png_Encode = enc\<rparr> no_input_world run_args))
        ''out.png'' = Some []) \<and>
   (\<forall>enc. files bad_input_world ''out.png'' = Some ''old'' \<and>
      fst (snd (main \<lparr>scanners = go_fmt, png_Encode = enc\<rparr> bad_input_world run_args))
        = Inl ScanError \<and>
      files (fst (main \<lparr>scanners = go_fmt, png_Encode = enc\<rparr> bad_input_world run_args))
        ''out.png'' = Some [])"
  by (simp add: main_def os_Create_def no_input_world_def bad_input_world_def run_args_def
        missing_input_fails bad_input_fails)

end
